theory Spec2Isabelle
  imports Complex_Main "HOL-Library.Word"
begin

unbundle bit_operations_syntax

section \<open>Python values used by order.py\<close>

text \<open>
  A Python \<open>str\<close> is a sequence of Unicode code points, so it is modelled as a list of
  naturals. The source's ASCII literals are written with \<open>pys\<close>; its Chinese literals
  are written as their code points.
\<close>

type_synonym pystr = "nat list"

definition pys :: "string \<Rightarrow> pystr" where
  "pys s = map of_char s"

text \<open>
  The exceptions the modelled code can raise. \<open>LibraryError\<close> stands for what a
  library outside the program raises. All of them are subclasses of \<open>Exception\<close>, so
  the handler of line 181 catches each.
\<close>

datatype error =
    ValueError
  | TypeError
  | KeyError
  | AttributeError
  | ZeroDivisionError
  | OverflowError
  | UnicodeEncodeError
  | LibraryError pystr

text \<open>
  What \<open>response.json()\<close> can return. A dict keeps its insertion order and has distinct
  keys: it is an association list, read with \<open>map_of\<close>. The type \<open>'f\<close> stands for
  Python's \<open>float\<close>, whose arithmetic is not modelled.
\<close>

datatype 'f json =
    JNull
  | JBool bool
  | JInt int
  | JFloat 'f
  | JStr pystr
  | JList "'f json list"
  | JDict "(pystr \<times> 'f json) list"

text \<open>\<open>d.get(k, default)\<close> of a dict.\<close>

definition dict_get :: "(pystr \<times> 'v) list \<Rightarrow> pystr \<Rightarrow> 'v \<Rightarrow> 'v" where
  "dict_get d k dflt = (case map_of d k of None \<Rightarrow> dflt | Some v \<Rightarrow> v)"

text \<open>
  The operations on floats that the source uses, as parameters: \<open>float(s)\<close> of a
  non-empty string, \<open>float(i)\<close> of an int, \<open>x > 0\<close>, \<open>x != 0\<close> and the formats
  \<open>{x:.4f}\<close> and \<open>{x:.2f}\<close>.
\<close>

record 'f pyfloat =
  str_to_float :: "pystr \<Rightarrow> error + 'f"
  int_to_float :: "int \<Rightarrow> error + 'f"
  gt_zero :: "'f \<Rightarrow> bool"
  ne_zero :: "'f \<Rightarrow> bool"
  fmt4 :: "'f \<Rightarrow> pystr"
  fmt2 :: "'f \<Rightarrow> pystr"

text \<open>
  \<open>float(v)\<close> of a JSON value: \<open>None\<close>, a list and a dict raise TypeError, the empty
  string raises ValueError, a bool is the int 0 or 1.
\<close>

definition py_float :: "'f pyfloat \<Rightarrow> 'f json \<Rightarrow> error + 'f" where
  "py_float fl v =
     (case v of
        JNull \<Rightarrow> Inl TypeError
      | JBool b \<Rightarrow> int_to_float fl (if b then 1 else 0)
      | JInt i \<Rightarrow> int_to_float fl i
      | JFloat x \<Rightarrow> Inr x
      | JStr s \<Rightarrow> (if s = [] then Inl ValueError else str_to_float fl s)
      | JList _ \<Rightarrow> Inl TypeError
      | JDict _ \<Rightarrow> Inl TypeError)"

section \<open>The signer (lines 15 to 17)\<close>

type_synonym byte = "8 word"

text \<open>
  \<open>s.encode('utf-8')\<close> with the default strict error handling: a surrogate code point
  (D800 to DFFF) raises UnicodeEncodeError. No Python string holds a code point of
  110000 or above; the model gives it the same error.
\<close>

definition utf8_char :: "nat \<Rightarrow> error + byte list" where
  "utf8_char c =
     (if c < 0x80 then Inr [of_nat c]
      else if c < 0x800 then Inr [of_nat (0xC0 + c div 64), of_nat (0x80 + c mod 64)]
      else if 0xD800 \<le> c \<and> c \<le> 0xDFFF then Inl UnicodeEncodeError
      else if c < 0x10000 then
        Inr [of_nat (0xE0 + c div 4096), of_nat (0x80 + c div 64 mod 64),
             of_nat (0x80 + c mod 64)]
      else if c < 0x110000 then
        Inr [of_nat (0xF0 + c div 262144), of_nat (0x80 + c div 4096 mod 64),
             of_nat (0x80 + c div 64 mod 64), of_nat (0x80 + c mod 64)]
      else Inl UnicodeEncodeError)"

fun utf8_encode :: "pystr \<Rightarrow> error + byte list" where
  "utf8_encode [] = Inr []"
| "utf8_encode (c # cs) =
     (case utf8_char c of
        Inl e \<Rightarrow> Inl e
      | Inr bs \<Rightarrow> (case utf8_encode cs of
                     Inl e \<Rightarrow> Inl e
                   | Inr rest \<Rightarrow> Inr (bs @ rest)))"

text \<open>
  The strings that \<open>encode('utf-8')\<close> accepts: those without a surrogate code point.
\<close>

definition encodable :: "pystr \<Rightarrow> bool" where
  "encodable s \<longleftrightarrow> (\<forall>c\<in>set s. c < 0xD800 \<or> (0xDFFF < c \<and> c < 0x110000))"

text \<open>
  \<open>urllib.parse.quote_plus\<close> with \<open>safe=''\<close>, as \<open>urlencode\<close> calls it: the string is
  encoded as UTF-8; a byte among the letters, the digits and \<open>_.-~\<close> stands for itself,
  a space becomes \<open>+\<close>, and every other byte becomes \<open>%XX\<close> in upper-case hexadecimal.
\<close>

definition always_safe :: "nat \<Rightarrow> bool" where
  "always_safe b \<longleftrightarrow>
     (65 \<le> b \<and> b \<le> 90) \<or> (97 \<le> b \<and> b \<le> 122) \<or> (48 \<le> b \<and> b \<le> 57) \<or>
     b = 95 \<or> b = 46 \<or> b = 45 \<or> b = 126"

definition hex_upper :: "nat \<Rightarrow> nat" where
  "hex_upper d = (if d < 10 then 48 + d else 55 + d)"

definition quote_byte :: "byte \<Rightarrow> pystr" where
  "quote_byte b =
     (let n = unat b in
      if always_safe n then [n]
      else if n = 32 then pys ''+''
      else [37, hex_upper (n div 16), hex_upper (n mod 16)])"

definition quote_plus :: "pystr \<Rightarrow> error + pystr" where
  "quote_plus s =
     (case utf8_encode s of
        Inl e \<Rightarrow> Inl e
      | Inr bs \<Rightarrow> Inr (concat (map quote_byte bs)))"

text \<open>
  The values of a parameter dict: the primitive values. \<open>urlencode\<close> applies \<open>str\<close> to
  a value that is not a string. Floating-point arithmetic is not modelled: a float is
  given by the text that \<open>str\<close> prints for it, which determines the float and is all
  that \<open>urlencode\<close> reads of it.
\<close>

datatype pval = PStr pystr | PInt int | PFloat string | PBool bool | PNone

fun digits :: "nat \<Rightarrow> pystr" where
  "digits n = (if n < 10 then [48 + n] else digits (n div 10) @ [48 + n mod 10])"

declare digits.simps [simp del]

text \<open>
  \<open>str(i)\<close> of an int. CPython (3.11, and the security releases of the versions before
  it) refuses to print an int of more than 4300 decimal digits, the default of
  \<open>sys.set_int_max_str_digits\<close> that the program leaves in place, and raises ValueError.
\<close>

definition int_max_str_digits :: nat where
  "int_max_str_digits = 4300"

definition str_of_int :: "int \<Rightarrow> error + pystr" where
  "str_of_int i =
     (if 10 ^ int_max_str_digits \<le> \<bar>i\<bar> then Inl ValueError
      else if i < 0 then Inr (45 # digits (nat (- i)))
      else Inr (digits (nat i)))"

fun py_str :: "pval \<Rightarrow> error + pystr" where
  "py_str (PStr s) = Inr s"
| "py_str (PInt i) = str_of_int i"
| "py_str (PFloat s) = Inr (pys s)"
| "py_str (PBool b) = Inr (if b then pys ''True'' else pys ''False'')"
| "py_str PNone = Inr (pys ''None'')"

text \<open>
  The parameter dicts that \<open>urlencode\<close> accepts: no key and no string value holds a
  surrogate, and no int value has more digits than \<open>str\<close> prints.
\<close>

definition value_ok :: "pval \<Rightarrow> bool" where
  "value_ok v =
     (case v of
        PStr s \<Rightarrow> encodable s
      | PInt i \<Rightarrow> \<bar>i\<bar> < 10 ^ int_max_str_digits
      | _ \<Rightarrow> True)"

definition params_encodable :: "(pystr \<times> pval) list \<Rightarrow> bool" where
  "params_encodable params \<longleftrightarrow> (\<forall>(k, v)\<in>set params. encodable k \<and> value_ok v)"

text \<open>
  \<open>urllib.parse.urlencode(params)\<close> of a dict: for each item in insertion order, the
  quoted key, \<open>=\<close> and the quoted \<open>str\<close> of the value; the items are joined with \<open>&\<close>.
  The key is quoted before \<open>str\<close> is applied to the value.
\<close>

fun urlencode_items :: "(pystr \<times> pval) list \<Rightarrow> error + pystr list" where
  "urlencode_items [] = Inr []"
| "urlencode_items ((k, v) # rest) =
     (case quote_plus k of
        Inl e \<Rightarrow> Inl e
      | Inr qk \<Rightarrow>
          (case py_str v of
             Inl e \<Rightarrow> Inl e
           | Inr s \<Rightarrow>
               (case quote_plus s of
                  Inl e \<Rightarrow> Inl e
                | Inr qv \<Rightarrow>
                    (case urlencode_items rest of
                       Inl e \<Rightarrow> Inl e
                     | Inr l \<Rightarrow> Inr ((qk @ pys ''='' @ qv) # l)))))"

fun join_amp :: "pystr list \<Rightarrow> pystr" where
  "join_amp [] = []"
| "join_amp [x] = x"
| "join_amp (x # y # ys) = x @ pys ''&'' @ join_amp (y # ys)"

definition urlencode :: "(pystr \<times> pval) list \<Rightarrow> error + pystr" where
  "urlencode params =
     (case urlencode_items params of
        Inl e \<Rightarrow> Inl e
      | Inr l \<Rightarrow> Inr (join_amp l))"

subsection \<open>SHA-256 and HMAC, as hashlib and hmac compute them\<close>

type_synonym word32 = "32 word"

definition rotr :: "nat \<Rightarrow> word32 \<Rightarrow> word32" where
  "rotr n w = drop_bit n w OR push_bit (32 - n) w"

definition ch :: "word32 \<Rightarrow> word32 \<Rightarrow> word32 \<Rightarrow> word32" where
  "ch x y z = (x AND y) XOR (NOT x AND z)"

definition maj :: "word32 \<Rightarrow> word32 \<Rightarrow> word32 \<Rightarrow> word32" where
  "maj x y z = (x AND y) XOR (x AND z) XOR (y AND z)"

definition big_sigma0 :: "word32 \<Rightarrow> word32" where
  "big_sigma0 x = rotr 2 x XOR rotr 13 x XOR rotr 22 x"

definition big_sigma1 :: "word32 \<Rightarrow> word32" where
  "big_sigma1 x = rotr 6 x XOR rotr 11 x XOR rotr 25 x"

definition small_sigma0 :: "word32 \<Rightarrow> word32" where
  "small_sigma0 x = rotr 7 x XOR rotr 18 x XOR drop_bit 3 x"

definition small_sigma1 :: "word32 \<Rightarrow> word32" where
  "small_sigma1 x = rotr 17 x XOR rotr 19 x XOR drop_bit 10 x"

definition sha256_k :: "word32 list" where
  "sha256_k =
     [0x428A2F98, 0x71374491, 0xB5C0FBCF, 0xE9B5DBA5,
      0x3956C25B, 0x59F111F1, 0x923F82A4, 0xAB1C5ED5,
      0xD807AA98, 0x12835B01, 0x243185BE, 0x550C7DC3,
      0x72BE5D74, 0x80DEB1FE, 0x9BDC06A7, 0xC19BF174,
      0xE49B69C1, 0xEFBE4786, 0x0FC19DC6, 0x240CA1CC,
      0x2DE92C6F, 0x4A7484AA, 0x5CB0A9DC, 0x76F988DA,
      0x983E5152, 0xA831C66D, 0xB00327C8, 0xBF597FC7,
      0xC6E00BF3, 0xD5A79147, 0x06CA6351, 0x14292967,
      0x27B70A85, 0x2E1B2138, 0x4D2C6DFC, 0x53380D13,
      0x650A7354, 0x766A0ABB, 0x81C2C92E, 0x92722C85,
      0xA2BFE8A1, 0xA81A664B, 0xC24B8B70, 0xC76C51A3,
      0xD192E819, 0xD6990624, 0xF40E3585, 0x106AA070,
      0x19A4C116, 0x1E376C08, 0x2748774C, 0x34B0BCB5,
      0x391C0CB3, 0x4ED8AA4A, 0x5B9CCA4F, 0x682E6FF3,
      0x748F82EE, 0x78A5636F, 0x84C87814, 0x8CC70208,
      0x90BEFFFA, 0xA4506CEB, 0xBEF9A3F7, 0xC67178F2]"

type_synonym hash_state =
  "word32 \<times> word32 \<times> word32 \<times> word32 \<times> word32 \<times> word32 \<times> word32 \<times> word32"

definition sha256_init :: hash_state where
  "sha256_init =
     (0x6A09E667, 0xBB67AE85, 0x3C6EF372, 0xA54FF53A,
      0x510E527F, 0x9B05688C, 0x1F83D9AB, 0x5BE0CD19)"

definition be32 :: "byte \<Rightarrow> byte \<Rightarrow> byte \<Rightarrow> byte \<Rightarrow> word32" where
  "be32 a b c d =
     push_bit 24 (ucast a) OR push_bit 16 (ucast b) OR push_bit 8 (ucast c) OR ucast d"

fun block_words :: "byte list \<Rightarrow> word32 list" where
  "block_words (a # b # c # d # rest) = be32 a b c d # block_words rest"
| "block_words _ = []"

text \<open>The message schedule: \<open>k\<close> more words after the 16 of the block.\<close>

fun schedule :: "nat \<Rightarrow> word32 list \<Rightarrow> word32 list" where
  "schedule 0 w = w"
| "schedule (Suc k) w =
     (let n = length w
      in schedule k
           (w @ [small_sigma1 (w ! (n - 2)) + w ! (n - 7) +
                 small_sigma0 (w ! (n - 15)) + w ! (n - 16)]))"

fun sha256_round :: "hash_state \<Rightarrow> word32 \<times> word32 \<Rightarrow> hash_state" where
  "sha256_round (a, b, c, d, e, f, g, h) (k, w) =
     (let t1 = h + big_sigma1 e + ch e f g + k + w;
          t2 = big_sigma0 a + maj a b c
      in (t1 + t2, a, b, c, d + t1, e, f, g))"

fun add_state :: "hash_state \<Rightarrow> hash_state \<Rightarrow> hash_state" where
  "add_state (a, b, c, d, e, f, g, h) (a', b', c', d', e', f', g', h') =
     (a + a', b + b', c + c', d + d', e + e', f + f', g + g', h + h')"

definition compress :: "hash_state \<Rightarrow> byte list \<Rightarrow> hash_state" where
  "compress st block =
     add_state st (foldl sha256_round st (zip sha256_k (schedule 48 (block_words block))))"

function sha256_blocks :: "hash_state \<Rightarrow> byte list \<Rightarrow> hash_state" where
  "sha256_blocks st bs =
     (if length bs < 64 then st
      else sha256_blocks (compress st (take 64 bs)) (drop 64 bs))"
  by pat_completeness auto
termination
  by (relation "measure (\<lambda>(st, bs). length bs)") auto

declare sha256_blocks.simps [simp del]

definition word_bytes :: "word32 \<Rightarrow> byte list" where
  "word_bytes w = [ucast (drop_bit 24 w), ucast (drop_bit 16 w), ucast (drop_bit 8 w), ucast w]"

definition length_bytes :: "nat \<Rightarrow> byte list" where
  "length_bytes n =
     (let bits = (of_nat (8 * n) :: 64 word)
      in map (\<lambda>i. ucast (drop_bit (8 * i) bits)) [7, 6, 5, 4, 3, 2, 1, 0])"

text \<open>
  The padding: the byte 80, zero bytes up to 56 modulo 64, and the length of the
  message in bits as 8 bytes.
\<close>

definition sha256_pad :: "byte list \<Rightarrow> byte list" where
  "sha256_pad m =
     m @ [0x80] @ replicate ((119 - length m mod 64) mod 64) 0 @ length_bytes (length m)"

fun state_bytes :: "hash_state \<Rightarrow> byte list" where
  "state_bytes (a, b, c, d, e, f, g, h) =
     word_bytes a @ word_bytes b @ word_bytes c @ word_bytes d @
     word_bytes e @ word_bytes f @ word_bytes g @ word_bytes h"

definition sha256 :: "byte list \<Rightarrow> byte list" where
  "sha256 m = state_bytes (sha256_blocks sha256_init (sha256_pad m))"

text \<open>
  \<open>hmac.new(key, msg, hashlib.sha256).digest()\<close>: a key longer than the block of 64
  bytes is hashed first, then padded with zero bytes to the block.
\<close>

definition hmac_sha256 :: "byte list \<Rightarrow> byte list \<Rightarrow> byte list" where
  "hmac_sha256 key msg =
     (let k0 = (if 64 < length key then sha256 key else key);
          k = k0 @ replicate (64 - length k0) 0;
          inner = sha256 (map (\<lambda>b. b XOR 0x36) k @ msg)
      in sha256 (map (\<lambda>b. b XOR 0x5C) k @ inner))"

text \<open>\<open>hexdigest()\<close>: two lower-case hexadecimal digits for each byte.\<close>

definition hex_lower :: "nat \<Rightarrow> nat" where
  "hex_lower d = (if d < 10 then 48 + d else 87 + d)"

definition hexdigest :: "byte list \<Rightarrow> pystr" where
  "hexdigest bs = concat (map (\<lambda>b. [hex_lower (unat b div 16), hex_lower (unat b mod 16)]) bs)"

text \<open>
  Lines 16 and 17. The arguments of \<open>hmac.new\<close> are evaluated from the left: the
  secret is encoded before the query string.
\<close>

definition sign_request :: "(pystr \<times> pval) list \<Rightarrow> pystr \<Rightarrow> error + pystr" where
  "sign_request params secret_key =
     (case urlencode params of
        Inl e \<Rightarrow> Inl e
      | Inr query_string \<Rightarrow>
          (case utf8_encode secret_key of
             Inl e \<Rightarrow> Inl e
           | Inr key \<Rightarrow>
               (case utf8_encode query_string of
                  Inl e \<Rightarrow> Inl e
                | Inr msg \<Rightarrow> Inr (hexdigest (hmac_sha256 key msg)))))"

section \<open>The API client (lines 19 to 44)\<close>

definition BINANCE_FUTURES_API_URL :: pystr where
  "BINANCE_FUTURES_API_URL = pys ''https://fapi.binance.com''"

definition get_headers :: "pystr \<Rightarrow> (pystr \<times> pystr) list" where
  "get_headers api_key = [(pys ''X-MBX-APIKEY'', api_key)]"

text \<open>
  \<open>d[k] = v\<close> on a dict: an existing key keeps its place and takes the new value, a new
  key goes to the end. \<open>d.update(e)\<close> assigns the items of \<open>e\<close> in their order.
\<close>

fun dict_set :: "(pystr \<times> 'v) list \<Rightarrow> pystr \<Rightarrow> 'v \<Rightarrow> (pystr \<times> 'v) list" where
  "dict_set [] k v = [(k, v)]"
| "dict_set ((k', v') # d) k v =
     (if k' = k then (k', v) # d else (k', v') # dict_set d k v)"

definition dict_update :: "(pystr \<times> 'v) list \<Rightarrow> (pystr \<times> 'v) list \<Rightarrow> (pystr \<times> 'v) list" where
  "dict_update d e = foldl (\<lambda>acc kv. dict_set acc (fst kv) (snd kv)) d e"

text \<open>
  Lines 23 to 25. \<open>extra_params\<close> is \<open>None\<close> or a dict; \<open>None\<close> and the empty dict are
  both false in \<open>if extra_params\<close>. \<open>timestamp\<close> is what \<open>get_timestamp()\<close> returned.
\<close>

definition build_params :: "int \<Rightarrow> (pystr \<times> pval) list option \<Rightarrow> (pystr \<times> pval) list" where
  "build_params timestamp extra_params =
     (let params = [(pys ''timestamp'', PInt timestamp)]
      in case extra_params of
           None \<Rightarrow> params
         | Some e \<Rightarrow> if e = [] then params else dict_update params e)"

text \<open>The items that \<open>update\<close> assigns: none for \<open>None\<close>.\<close>

definition extra_items :: "(pystr \<times> 'v) list option \<Rightarrow> (pystr \<times> 'v) list" where
  "extra_items extra_params = (case extra_params of None \<Rightarrow> [] | Some e \<Rightarrow> e)"

text \<open>Line 26: the dict after \<open>params['signature'] = sign_request(params, secret_key)\<close>.\<close>

definition signed_params ::
  "int \<Rightarrow> (pystr \<times> pval) list option \<Rightarrow> pystr \<Rightarrow> error + (pystr \<times> pval) list" where
  "signed_params timestamp extra_params secret_key =
     (let params = build_params timestamp extra_params
      in case sign_request params secret_key of
           Inl e \<Rightarrow> Inl e
         | Inr signature \<Rightarrow> Inr (dict_set params (pys ''signature'') (PStr signature)))"

text \<open>Line 27: the URL of the request.\<close>

definition request_url ::
  "int \<Rightarrow> pystr \<Rightarrow> pystr \<Rightarrow> (pystr \<times> pval) list option \<Rightarrow> error + pystr" where
  "request_url timestamp endpoint secret_key extra_params =
     (case signed_params timestamp extra_params secret_key of
        Inl e \<Rightarrow> Inl e
      | Inr params \<Rightarrow>
          (case urlencode params of
             Inl e \<Rightarrow> Inl e
           | Inr q \<Rightarrow> Inr (BINANCE_FUTURES_API_URL @ endpoint @ pys ''?'' @ q)))"

text \<open>
  What the program reads of a \<open>requests\<close> response: its \<open>text\<close>, and what \<open>json()\<close>
  returns or raises.
\<close>

record 'f response =
  resp_text :: pystr
  resp_json :: "error + 'f json"

definition parse_error_msg :: pystr where
  "parse_error_msg = [0x65e0, 0x6cd5, 0x89e3, 0x6790, 0x54cd, 0x5e94]"

text \<open>
  Lines 22 to 32. \<open>requests.get\<close> is the parameter \<open>http_get\<close>, called with the URL and
  the headers; it is called outside the \<open>try\<close>, so what it raises propagates. The bare
  \<open>except\<close> catches whatever \<open>response.json()\<close> raises.
\<close>

definition signed_get ::
  "int \<Rightarrow> (pystr \<Rightarrow> (pystr \<times> pystr) list \<Rightarrow> error + 'f response) \<Rightarrow> pystr \<Rightarrow> pystr \<Rightarrow> pystr \<Rightarrow>
   (pystr \<times> pval) list option \<Rightarrow> error + 'f json" where
  "signed_get timestamp http_get endpoint api_key secret_key extra_params =
     (case request_url timestamp endpoint secret_key extra_params of
        Inl e \<Rightarrow> Inl e
      | Inr url \<Rightarrow>
          (case http_get url (get_headers api_key) of
             Inl e \<Rightarrow> Inl e
           | Inr response \<Rightarrow>
               (case resp_json response of
                  Inr v \<Rightarrow> Inr v
                | Inl e \<Rightarrow>
                    Inr (JDict [(pys ''msg'', JStr parse_error_msg),
                                (pys ''raw'', JStr (resp_text response))]))))"

definition get_account_info ::
  "int \<Rightarrow> (pystr \<Rightarrow> (pystr \<times> pystr) list \<Rightarrow> error + 'f response) \<Rightarrow> pystr \<Rightarrow> pystr \<Rightarrow> error + 'f json" where
  "get_account_info timestamp http_get api_key secret_key =
     signed_get timestamp http_get (pys ''/fapi/v2/account'') api_key secret_key None"

definition get_positions ::
  "int \<Rightarrow> (pystr \<Rightarrow> (pystr \<times> pystr) list \<Rightarrow> error + 'f response) \<Rightarrow> pystr \<Rightarrow> pystr \<Rightarrow> error + 'f json" where
  "get_positions timestamp http_get api_key secret_key =
     signed_get timestamp http_get (pys ''/fapi/v2/positionRisk'') api_key secret_key None"

definition get_open_orders ::
  "int \<Rightarrow> (pystr \<Rightarrow> (pystr \<times> pystr) list \<Rightarrow> error + 'f response) \<Rightarrow> pystr \<Rightarrow> pystr \<Rightarrow> error + 'f json" where
  "get_open_orders timestamp http_get api_key secret_key =
     signed_get timestamp http_get (pys ''/fapi/v1/openOrders'') api_key secret_key None"

definition get_position_history ::
  "int \<Rightarrow> (pystr \<Rightarrow> (pystr \<times> pystr) list \<Rightarrow> error + 'f response) \<Rightarrow> pystr \<Rightarrow> pystr \<Rightarrow> error + 'f json" where
  "get_position_history timestamp http_get api_key secret_key =
     signed_get timestamp http_get (pys ''/fapi/v1/userTrades'') api_key secret_key
       (Some [(pys ''limit'', PInt 50)])"

section \<open>The presenter: open orders (lines 124 to 162)\<close>

text \<open>\<open>order.get(k, '')\<close>, the way every field of an order is read.\<close>

definition order_get :: "(pystr \<times> 'f json) list \<Rightarrow> string \<Rightarrow> 'f json" where
  "order_get order k = dict_get order (pys k) (JStr [])"

definition label_mark_price :: pystr where
  "label_mark_price = [0x6807, 0x8bb0, 0x4ef7, 0x683c]"

definition label_last_price :: pystr where
  "label_last_price = [0x6700, 0x65b0, 0x4ef7, 0x683c]"

text \<open>
  Lines 125 to 142. The variable \<open>trigger_condition\<close> starts as \<open>"-"\<close>; inside the
  \<open>try\<close> only \<open>float(trigger_price)\<close> can raise, and the bare \<open>except\<close> then leaves
  the variable as it is.
\<close>

definition trigger_condition :: "'f pyfloat \<Rightarrow> (pystr \<times> 'f json) list \<Rightarrow> pystr" where
  "trigger_condition fl order =
     (let order_type = order_get order ''type'';
          trigger_price = order_get order ''triggerPrice'';
          working_type = order_get order ''workingType'';
          side = order_get order ''side''
      in case py_float fl trigger_price of
           Inl e \<Rightarrow> pys ''-''
         | Inr tp \<Rightarrow>
             if gt_zero fl tp then
               (let price_cmp =
                      (if order_type \<in> set [JStr (pys ''TAKE_PROFIT_MARKET''), JStr (pys ''TAKE_PROFIT'')]
                       then (if side = JStr (pys ''SELL'') then pys ''>='' else pys ''<='')
                       else if order_type \<in> set [JStr (pys ''STOP_MARKET''), JStr (pys ''STOP'')]
                       then (if side = JStr (pys ''SELL'') then pys ''<='' else pys ''>='')
                       else pys ''-'');
                    trigger_label =
                      (if working_type = JStr (pys ''MARK_PRICE'')
                       then label_mark_price else label_last_price)
                in trigger_label @ pys '' '' @ price_cmp @ pys '' '' @ fmt4 fl tp)
             else pys ''-'')"

text \<open>Lines 144 to 151: the lookup table, in the source's order.\<close>

definition label_market_stop :: pystr where
  "label_market_stop = [0x5e02, 0x4ef7, 0x6b62, 0x635f]"

definition label_market_take_profit :: pystr where
  "label_market_take_profit = [0x5e02, 0x4ef7, 0x6b62, 0x76c8]"

definition label_limit_stop :: pystr where
  "label_limit_stop = [0x9650, 0x4ef7, 0x6b62, 0x635f]"

definition label_limit_take_profit :: pystr where
  "label_limit_take_profit = [0x9650, 0x4ef7, 0x6b62, 0x76c8]"

definition label_limit_order :: pystr where
  "label_limit_order = [0x9650, 0x4ef7, 0x59d4, 0x6258]"

definition label_market_order :: pystr where
  "label_market_order = [0x5e02, 0x4ef7, 0x59d4, 0x6258]"

definition type_map :: "(pystr \<times> pystr) list" where
  "type_map =
     [(pys ''STOP_MARKET'', label_market_stop),
      (pys ''TAKE_PROFIT_MARKET'', label_market_take_profit),
      (pys ''STOP'', label_limit_stop),
      (pys ''TAKE_PROFIT'', label_limit_take_profit),
      (pys ''LIMIT'', label_limit_order),
      (pys ''MARKET'', label_market_order)]"

text \<open>A list and a dict are unhashable: using one as a dict key raises TypeError.\<close>

fun hashable :: "'f json \<Rightarrow> bool" where
  "hashable (JList _) = False"
| "hashable (JDict _) = False"
| "hashable _ = True"

text \<open>
  Line 158, \<open>type_map.get(order_type, order_type)\<close>. The keys of the table are strings,
  and a value that is not a string equals none of them.
\<close>

definition type_label :: "'f json \<Rightarrow> error + 'f json" where
  "type_label order_type =
     (if \<not> hashable order_type then Inl TypeError
      else case order_type of
             JStr s \<Rightarrow> (case map_of type_map s of
                          Some l \<Rightarrow> Inr (JStr l)
                        | None \<Rightarrow> Inr order_type)
           | _ \<Rightarrow> Inr order_type)"

text \<open>
  Lines 153 to 162: the row built for one order. The time column formats a local
  datetime from a float; \<open>fmt_time\<close> stands for
  \<open>datetime.fromtimestamp(t / 1000).strftime(...)\<close>. The items of the dict display are
  evaluated in the order written, so a failing type lookup is raised before the time
  is formatted.
\<close>

record 'f order_row =
  row_symbol :: "'f json"
  row_side :: "'f json"
  row_qty :: "'f json"
  row_price :: "'f json"
  row_type :: "'f json"
  row_status :: "'f json"
  row_trigger :: pystr
  row_time :: pystr

definition process_order ::
  "'f pyfloat \<Rightarrow> ('f json \<Rightarrow> error + pystr) \<Rightarrow> (pystr \<times> 'f json) list \<Rightarrow> error + 'f order_row" where
  "process_order fl fmt_time order =
     (let order_type = order_get order ''type'';
          trig = trigger_condition fl order
      in case type_label order_type of
           Inl e \<Rightarrow> Inl e
         | Inr lbl \<Rightarrow>
             (case fmt_time (dict_get order (pys ''time'') (JInt 0)) of
                Inl e \<Rightarrow> Inl e
              | Inr t \<Rightarrow>
                  Inr \<lparr> row_symbol = order_get order ''symbol'',
                        row_side = order_get order ''side'',
                        row_qty = order_get order ''origQty'',
                        row_price = order_get order ''price'',
                        row_type = lbl,
                        row_status = order_get order ''status'',
                        row_trigger = trig,
                        row_time = t \<rparr>))"

text \<open>
  The loop of line 124 over \<open>open_orders\<close>: an element that is not a dict has no
  \<open>get\<close>, which raises AttributeError.
\<close>

fun process_orders ::
  "'f pyfloat \<Rightarrow> ('f json \<Rightarrow> error + pystr) \<Rightarrow> 'f json list \<Rightarrow> error + 'f order_row list" where
  "process_orders fl fmt_time [] = Inr []"
| "process_orders fl fmt_time (JDict order # rest) =
     (case process_order fl fmt_time order of
        Inl e \<Rightarrow> Inl e
      | Inr r \<Rightarrow> (case process_orders fl fmt_time rest of
                    Inl e \<Rightarrow> Inl e
                  | Inr rs \<Rightarrow> Inr (r # rs)))"
| "process_orders fl fmt_time (_ # rest) = Inl AttributeError"

section \<open>The presenter: positions (line 103)\<close>

text \<open>
  \<open>float(p['positionAmt'])\<close>: a dict without the key raises KeyError, and subscripting
  anything else with a string raises TypeError.
\<close>

definition position_amt :: "'f pyfloat \<Rightarrow> 'f json \<Rightarrow> error + 'f" where
  "position_amt fl p =
     (case p of
        JDict d \<Rightarrow> (case map_of d (pys ''positionAmt'') of
                      None \<Rightarrow> Inl KeyError
                    | Some v \<Rightarrow> py_float fl v)
      | _ \<Rightarrow> Inl TypeError)"

text \<open>The list comprehension: the first element whose amount does not convert raises.\<close>

fun filter_active :: "'f pyfloat \<Rightarrow> 'f json list \<Rightarrow> error + 'f json list" where
  "filter_active fl [] = Inr []"
| "filter_active fl (p # ps) =
     (case position_amt fl p of
        Inl e \<Rightarrow> Inl e
      | Inr x \<Rightarrow> (case filter_active fl ps of
                    Inl e \<Rightarrow> Inl e
                  | Inr r \<Rightarrow> Inr (if ne_zero fl x then p # r else r)))"

text \<open>
  \<open>for p in positions\<close>: a list gives its elements, a dict its keys, a string its
  characters; nothing else is iterable.
\<close>

definition py_iter :: "'f json \<Rightarrow> error + 'f json list" where
  "py_iter v =
     (case v of
        JList xs \<Rightarrow> Inr xs
      | JDict d \<Rightarrow> Inr (map (\<lambda>kv. JStr (fst kv)) d)
      | JStr s \<Rightarrow> Inr (map (\<lambda>c. JStr [c]) s)
      | _ \<Rightarrow> Inl TypeError)"

definition active_positions :: "'f pyfloat \<Rightarrow> 'f json \<Rightarrow> error + 'f json list" where
  "active_positions fl positions =
     (case py_iter positions of
        Inl e \<Rightarrow> Inl e
      | Inr ps \<Rightarrow> filter_active fl ps)"

section \<open>The paginator (lines 46 to 65)\<close>

text \<open>
  The calls of the Streamlit API that the program makes, as a trace. \<open>StSelectbox\<close>
  records the call of \<open>st.selectbox\<close> with its label, options, index and key.
\<close>

datatype 'r ui =
    StDataframe "'r list"
  | StSelectbox pystr "int list" int pystr
  | StMarkdown pystr
  | StMetric pystr pystr
  | StInfo pystr
  | StWarning pystr
  | StError pystr

text \<open>
  \<open>df.iloc[start:stop]\<close> on the rows of a table: a negative bound counts from the end,
  and both bounds are clamped to the table, so the slice never raises.
\<close>

definition py_slice :: "'a list \<Rightarrow> int \<Rightarrow> int \<Rightarrow> 'a list" where
  "py_slice xs start stop =
     (let n = int (length xs);
          lo = (if start < 0 then max 0 (n + start) else min start n);
          hi = (if stop < 0 then max 0 (n + stop) else min stop n)
      in take (nat (hi - lo)) (drop (nat lo) xs))"

definition selector_title :: pystr where
  "selector_title = [0x9875, 0x7801, 0x9009, 0x62e9, 0x20, 0x2d, 0x20]"

text \<open>
  \<open>st.session_state\<close> holds the page number of each label. What \<open>st.selectbox\<close>
  returns (the user's choice) or raises is Streamlit's: it is the parameter
  \<open>selectbox\<close>. A table is the list of its rows. The result is the trace of the calls
  made, and either the exception raised or the new session state. \<open>//\<close> raises
  ZeroDivisionError on a zero page size.
\<close>

definition paginated_table ::
  "(pystr \<Rightarrow> int list \<Rightarrow> int \<Rightarrow> pystr \<Rightarrow> error + int) \<Rightarrow> 'r list \<Rightarrow> pystr \<Rightarrow> int \<Rightarrow>
   (pystr \<rightharpoonup> int) \<Rightarrow> 'r ui list \<times> (error + (pystr \<rightharpoonup> int))" where
  "paginated_table selectbox df label page_size session_state =
     (let total = int (length df) in
      if total \<le> page_size then ([StDataframe df], Inr session_state)
      else if page_size = 0 then ([], Inl ZeroDivisionError)
      else
        (let pages = (total - 1) div page_size + 1;
             page_key = label @ pys ''_page'';
             page = (case session_state page_key of None \<Rightarrow> 1 | Some p \<Rightarrow> p);
             start = (page - 1) * page_size;
             end = start + page_size;
             trace = [StDataframe (py_slice df start end),
                      StSelectbox (selector_title @ label) [1..pages] (page - 1)
                        (label @ pys ''_selector'')]
         in case selectbox (selector_title @ label) [1..pages] (page - 1)
                   (label @ pys ''_selector'') of
              Inl e \<Rightarrow> (trace, Inl e)
            | Inr new_page \<Rightarrow> (trace, Inr (session_state(page_key \<mapsto> new_page)))))"

section \<open>The refresh loop (lines 77 to 187)\<close>

text \<open>
  What one pass of the loop takes from outside the program: the clock read by each
  \<open>get_timestamp()\<close> of the pass, the HTTP layer, the user's page selections, the two
  pandas pipelines (lines 105 to 116 and 171 to 174), the datetime formats, and the
  texts that \<open>str\<close> gives for an exception and for a JSON value that is not a string.
\<close>

record ('f, 'r) world =
  w_clock :: "nat \<Rightarrow> int"
  w_http :: "pystr \<Rightarrow> (pystr \<times> pystr) list \<Rightarrow> error + 'f response"
  w_selectbox :: "pystr \<Rightarrow> int list \<Rightarrow> int \<Rightarrow> pystr \<Rightarrow> error + int"
  w_positions_frame :: "'f json list \<Rightarrow> error + 'r list"
  w_trades_frame :: "'f json list \<Rightarrow> error + 'r list"
  w_fmt_time :: "'f json \<Rightarrow> error + pystr"
  w_now :: pystr
  w_exc_str :: "error \<Rightarrow> pystr"
  w_repr :: "'f json \<Rightarrow> pystr"

text \<open>The rows of the three tables: pandas rows, or the rows built for the orders.\<close>

datatype ('f, 'r) table_row = FrameRow 'r | OrderRow "'f order_row"

definition title_account :: pystr where
  "title_account =
     [0x23, 0x23, 0x23, 0x20, 0x1f4bc, 0x20, 0x5f53, 0x524d, 0x8d26, 0x6237, 0x6c47, 0x603b]"

definition label_wallet :: pystr where
  "label_wallet = [0x94b1, 0x5305, 0x4f59, 0x989d]"

definition label_unrealized :: pystr where
  "label_unrealized = [0x672a, 0x5b9e, 0x73b0, 0x76c8, 0x4e8f]"

definition label_margin :: pystr where
  "label_margin = [0x4fdd, 0x8bc1, 0x91d1, 0x4f59, 0x989d]"

definition title_positions :: pystr where
  "title_positions = [0x23, 0x23, 0x23, 0x20, 0x1f4c8, 0x20, 0x5f53, 0x524d, 0x6301, 0x4ed3]"

definition table_positions :: pystr where
  "table_positions = [0x5f53, 0x524d, 0x6301, 0x4ed3]"

definition no_positions :: pystr where
  "no_positions = [0x65e0, 0x5f53, 0x524d, 0x6301, 0x4ed3]"

definition title_orders :: pystr where
  "title_orders =
     [0x23, 0x23, 0x23, 0x20, 0x1f4cb, 0x20, 0x5f53, 0x524d, 0x59d4, 0x6258, 0x8ba2, 0x5355,
      0xff08, 0x542b, 0x4e2d, 0x6587, 0x89e6, 0x53d1, 0x6761, 0x4ef6, 0xff09]"

definition table_orders :: pystr where
  "table_orders = [0x5f53, 0x524d, 0x59d4, 0x6258]"

definition no_orders :: pystr where
  "no_orders = [0x65e0, 0x5f53, 0x524d, 0x59d4, 0x6258]"

definition title_trades :: pystr where
  "title_trades =
     [0x23, 0x23, 0x23, 0x20, 0x1f552, 0x20, 0x6700, 0x8fd1, 0x6210, 0x4ea4, 0x8bb0, 0x5f55,
      0xff08, 0x4ed3, 0x4f4d, 0x5386, 0x53f2, 0xff09]"

definition table_trades :: pystr where
  "table_trades = [0x6210, 0x4ea4, 0x8bb0, 0x5f55]"

definition no_trades :: pystr where
  "no_trades = [0x65e0, 0x6210, 0x4ea4, 0x8bb0, 0x5f55]"

definition last_refresh :: pystr where
  "last_refresh = [0x23f1, 0x20, 0x6700, 0x540e, 0x5237, 0x65b0, 0xff1a]"

definition account_error :: pystr where
  "account_error = [0x8d26, 0x6237, 0x4fe1, 0x606f, 0x9519, 0x8bef, 0x3a, 0x20]"

definition generic_error :: pystr where
  "generic_error = [0x53d1, 0x751f, 0x9519, 0x8bef, 0xff1a]"

definition enter_keys :: pystr where
  "enter_keys =
     [0x8bf7, 0x5728, 0x5de6, 0x4fa7, 0x8f93, 0x5165, 0x20, 0x41, 0x50, 0x49, 0x20, 0x4b, 0x65,
      0x79, 0x20, 0x548c, 0x20, 0x53, 0x65, 0x63, 0x72, 0x65, 0x74, 0x20, 0x4b, 0x65, 0x79,
      0x20, 0x540e, 0x5f00, 0x59cb]"

text \<open>\<open>k in s\<close> for two strings: \<open>k\<close> occurs in \<open>s\<close>.\<close>

fun starts_with :: "pystr \<Rightarrow> pystr \<Rightarrow> bool" where
  "starts_with s [] = True"
| "starts_with [] (c # k) = False"
| "starts_with (x # s) (c # k) = (x = c \<and> starts_with s k)"

fun occurs_in :: "pystr \<Rightarrow> pystr \<Rightarrow> bool" where
  "occurs_in k [] = (k = [])"
| "occurs_in k (x # s) = (starts_with (x # s) k \<or> occurs_in k s)"

text \<open>
  \<open>k in v\<close>, \<open>v[k]\<close> and \<open>v.get(k, default)\<close> for a string \<open>k\<close> and a JSON value \<open>v\<close>.
  \<open>in\<close> looks among the keys of a dict, the elements of a list and the substrings of a
  string, and raises TypeError on anything else; only a dict can be subscripted with a
  string and only a dict has \<open>get\<close>.
\<close>

definition json_contains :: "'f json \<Rightarrow> pystr \<Rightarrow> error + bool" where
  "json_contains v k =
     (case v of
        JDict d \<Rightarrow> Inr (k \<in> fst ` set d)
      | JList xs \<Rightarrow> Inr (JStr k \<in> set xs)
      | JStr s \<Rightarrow> Inr (occurs_in k s)
      | _ \<Rightarrow> Inl TypeError)"

definition json_item :: "'f json \<Rightarrow> pystr \<Rightarrow> error + 'f json" where
  "json_item v k =
     (case v of
        JDict d \<Rightarrow> (case map_of d k of None \<Rightarrow> Inl KeyError | Some x \<Rightarrow> Inr x)
      | _ \<Rightarrow> Inl TypeError)"

definition json_get :: "'f json \<Rightarrow> pystr \<Rightarrow> 'f json \<Rightarrow> error + 'f json" where
  "json_get v k dflt =
     (case v of
        JDict d \<Rightarrow> Inr (dict_get d k dflt)
      | _ \<Rightarrow> Inl AttributeError)"

text \<open>A value inside an f-string: a string stands for itself.\<close>

definition py_format :: "('f, 'r) world \<Rightarrow> 'f json \<Rightarrow> pystr" where
  "py_format w v = (case v of JStr s \<Rightarrow> s | _ \<Rightarrow> w_repr w v)"

text \<open>
  Running one step after another: the calls already made stay in the trace when a step
  raises, and the steps after it are not run.
\<close>

definition and_then ::
  "'u list \<times> (error + 'a) \<Rightarrow> ('a \<Rightarrow> 'u list \<times> (error + 'b)) \<Rightarrow> 'u list \<times> (error + 'b)" where
  "and_then r f =
     (case r of
        (trace, Inl e) \<Rightarrow> (trace, Inl e)
      | (trace, Inr x) \<Rightarrow> (case f x of (trace', y) \<Rightarrow> (trace @ trace', y)))"

text \<open>Lines 83 to 86: the four requests, each with its own timestamp.\<close>

definition fetch_all ::
  "('f, 'r) world \<Rightarrow> pystr \<Rightarrow> pystr \<Rightarrow> error + ('f json \<times> 'f json \<times> 'f json \<times> 'f json)" where
  "fetch_all w api_key api_secret =
     (case get_account_info (w_clock w 0) (w_http w) api_key api_secret of
        Inl e \<Rightarrow> Inl e
      | Inr account_info \<Rightarrow>
          (case get_positions (w_clock w 1) (w_http w) api_key api_secret of
             Inl e \<Rightarrow> Inl e
           | Inr positions \<Rightarrow>
               (case get_open_orders (w_clock w 2) (w_http w) api_key api_secret of
                  Inl e \<Rightarrow> Inl e
                | Inr open_orders \<Rightarrow>
                    (case get_position_history (w_clock w 3) (w_http w) api_key api_secret of
                       Inl e \<Rightarrow> Inl e
                     | Inr trade_history \<Rightarrow>
                         Inr (account_info, positions, open_orders, trade_history)))))"

text \<open>\<open>float(account_info[k])\<close>.\<close>

definition account_float :: "'f pyfloat \<Rightarrow> 'f json \<Rightarrow> string \<Rightarrow> error + 'f" where
  "account_float fl account_info k =
     (case json_item account_info (pys k) of
        Inl e \<Rightarrow> Inl e
      | Inr v \<Rightarrow> py_float fl v)"

text \<open>Lines 92 to 100: the three floats are read before anything is drawn.\<close>

definition render_account ::
  "'f pyfloat \<Rightarrow> 'f json \<Rightarrow> ('f, 'r) table_row ui list \<times> (error + unit)" where
  "render_account fl account_info =
     (case account_float fl account_info ''totalWalletBalance'' of
        Inl e \<Rightarrow> ([], Inl e)
      | Inr total_wallet_balance \<Rightarrow>
          (case account_float fl account_info ''totalUnrealizedProfit'' of
             Inl e \<Rightarrow> ([], Inl e)
           | Inr total_unrealized_profit \<Rightarrow>
               (case account_float fl account_info ''totalMarginBalance'' of
                  Inl e \<Rightarrow> ([], Inl e)
                | Inr margin_balance \<Rightarrow>
                    ([StMarkdown title_account,
                      StMetric label_wallet (fmt2 fl total_wallet_balance @ pys '' USDT''),
                      StMetric label_unrealized (fmt2 fl total_unrealized_profit @ pys '' USDT''),
                      StMetric label_margin (fmt2 fl margin_balance @ pys '' USDT'')],
                     Inr ()))))"

text \<open>Lines 102 to 119.\<close>

definition render_positions ::
  "'f pyfloat \<Rightarrow> ('f, 'r) world \<Rightarrow> 'f json \<Rightarrow> (pystr \<rightharpoonup> int) \<Rightarrow>
   ('f, 'r) table_row ui list \<times> (error + (pystr \<rightharpoonup> int))" where
  "render_positions fl w positions session_state =
     and_then ([StMarkdown title_positions], Inr ())
       (\<lambda>_. case active_positions fl positions of
               Inl e \<Rightarrow> ([], Inl e)
             | Inr active \<Rightarrow>
                 if active \<noteq> [] then
                   (case w_positions_frame w active of
                      Inl e \<Rightarrow> ([], Inl e)
                    | Inr df_pos \<Rightarrow>
                        paginated_table (w_selectbox w) (map FrameRow df_pos) table_positions 10
                          session_state)
                 else ([StInfo no_positions], Inr session_state))"

text \<open>
  Lines 121 to 167. \<open>isinstance(open_orders, list) and open_orders\<close> holds for a
  non-empty list only.
\<close>

definition render_orders ::
  "'f pyfloat \<Rightarrow> ('f, 'r) world \<Rightarrow> 'f json \<Rightarrow> (pystr \<rightharpoonup> int) \<Rightarrow>
   ('f, 'r) table_row ui list \<times> (error + (pystr \<rightharpoonup> int))" where
  "render_orders fl w open_orders session_state =
     and_then ([StMarkdown title_orders], Inr ())
       (\<lambda>_. case open_orders of
               JList (order # rest) \<Rightarrow>
                 (case process_orders fl (w_fmt_time w) (order # rest) of
                    Inl e \<Rightarrow> ([], Inl e)
                  | Inr processed_orders \<Rightarrow>
                      paginated_table (w_selectbox w) (map OrderRow processed_orders) table_orders 10
                        session_state)
             | _ \<Rightarrow> ([StInfo no_orders], Inr session_state))"

text \<open>Lines 169 to 177.\<close>

definition render_trades ::
  "('f, 'r) world \<Rightarrow> 'f json \<Rightarrow> (pystr \<rightharpoonup> int) \<Rightarrow>
   ('f, 'r) table_row ui list \<times> (error + (pystr \<rightharpoonup> int))" where
  "render_trades w trade_history session_state =
     and_then ([StMarkdown title_trades], Inr ())
       (\<lambda>_. case trade_history of
               JList (trade # rest) \<Rightarrow>
                 (case w_trades_frame w (trade # rest) of
                    Inl e \<Rightarrow> ([], Inl e)
                  | Inr df_trades \<Rightarrow>
                      paginated_table (w_selectbox w) (map FrameRow df_trades) table_trades 10
                        session_state)
             | _ \<Rightarrow> ([StInfo no_trades], Inr session_state))"

text \<open>Lines 92 to 179, in their order.\<close>

definition render_body ::
  "'f pyfloat \<Rightarrow> ('f, 'r) world \<Rightarrow> 'f json \<Rightarrow> 'f json \<Rightarrow> 'f json \<Rightarrow> 'f json \<Rightarrow>
   (pystr \<rightharpoonup> int) \<Rightarrow> ('f, 'r) table_row ui list \<times> (error + (pystr \<rightharpoonup> int))" where
  "render_body fl w account_info positions open_orders trade_history session_state =
     and_then (render_account fl account_info)
       (\<lambda>_. and_then (render_positions fl w positions session_state)
          (\<lambda>s1. and_then (render_orders fl w open_orders s1)
             (\<lambda>s2. and_then (render_trades w trade_history s2)
                (\<lambda>s3. ([StMarkdown (last_refresh @ w_now w)], Inr s3)))))"

text \<open>
  One pass of the \<open>while\<close> loop (lines 81 to 185). Every exception raised inside the
  \<open>try\<close> is shown by the handler of line 181, which leaves the loop; so does the branch
  of line 88. A pass that ends normally sleeps and goes on with the new session state.
\<close>

datatype pass_end = Break | Continue "pystr \<rightharpoonup> int"

definition show_exception :: "('f, 'r) world \<Rightarrow> error \<Rightarrow> ('f, 'r) table_row ui" where
  "show_exception w e = StError (generic_error @ w_exc_str w e)"

definition cycle ::
  "'f pyfloat \<Rightarrow> ('f, 'r) world \<Rightarrow> pystr \<Rightarrow> pystr \<Rightarrow> (pystr \<rightharpoonup> int) \<Rightarrow>
   ('f, 'r) table_row ui list \<times> pass_end" where
  "cycle fl w api_key api_secret session_state =
     (case fetch_all w api_key api_secret of
        Inl e \<Rightarrow> ([show_exception w e], Break)
      | Inr (account_info, positions, open_orders, trade_history) \<Rightarrow>
          (case json_contains account_info (pys ''totalWalletBalance'') of
             Inl e \<Rightarrow> ([show_exception w e], Break)
           | Inr False \<Rightarrow>
               (case json_get account_info (pys ''msg'') account_info of
                  Inl e \<Rightarrow> ([show_exception w e], Break)
                | Inr msg \<Rightarrow> ([StError (account_error @ py_format w msg)], Break))
           | Inr True \<Rightarrow>
               (case render_body fl w account_info positions open_orders trade_history
                       session_state of
                  (trace, Inl e) \<Rightarrow> (trace @ [show_exception w e], Break)
                | (trace, Inr s) \<Rightarrow> (trace, Continue s))))"

text \<open>
  The loop, run on the worlds of its successive passes. It stops at the first pass that
  ends with \<open>break\<close>; when the worlds given are used up it is still polling.
\<close>

datatype loop_end = Stopped | Polling "pystr \<rightharpoonup> int"

fun refresh_loop ::
  "'f pyfloat \<Rightarrow> ('f, 'r) world list \<Rightarrow> pystr \<Rightarrow> pystr \<Rightarrow> (pystr \<rightharpoonup> int) \<Rightarrow>
   ('f, 'r) table_row ui list \<times> loop_end" where
  "refresh_loop fl [] api_key api_secret session_state = ([], Polling session_state)"
| "refresh_loop fl (w # ws) api_key api_secret session_state =
     (case cycle fl w api_key api_secret session_state of
        (trace, Break) \<Rightarrow> (trace, Stopped)
      | (trace, Continue s) \<Rightarrow>
          (case refresh_loop fl ws api_key api_secret s of
             (trace', r) \<Rightarrow> (trace @ trace', r)))"

text \<open>Lines 77 and 186: an empty key or secret shows the warning and nothing else.\<close>

definition dashboard ::
  "'f pyfloat \<Rightarrow> ('f, 'r) world list \<Rightarrow> pystr \<Rightarrow> pystr \<Rightarrow> (pystr \<rightharpoonup> int) \<Rightarrow>
   ('f, 'r) table_row ui list \<times> loop_end" where
  "dashboard fl ws api_key api_secret session_state =
     (if api_key \<noteq> [] \<and> api_secret \<noteq> [] then
        refresh_loop fl ws api_key api_secret session_state
      else ([StWarning enter_keys], Stopped))"

section \<open>Concrete instances for the examples\<close>

text \<open>
  A stand-in for floats that is exact on the few decimal strings the examples use: a
  value counts ten-thousandths.
\<close>

definition demo_float :: "int pyfloat" where
  "demo_float =
     \<lparr> str_to_float = (\<lambda>s. if s = pys ''50000.1'' then Inr 500001000
                           else if s = pys ''0'' then Inr 0
                           else if s = pys ''-0.001'' then Inr (-10)
                           else Inl ValueError),
       int_to_float = (\<lambda>i. Inr (10000 * i)),
       gt_zero = (\<lambda>x. 0 < x),
       ne_zero = (\<lambda>x. x \<noteq> 0),
       fmt4 = (\<lambda>x. if x = 500001000 then pys ''50000.1000'' else pys ''?''),
       fmt2 = (\<lambda>x. if x = 500001000 then pys ''50000.10'' else pys ''?'') \<rparr>"

definition demo_stop_order :: "(pystr \<times> int json) list" where
  "demo_stop_order =
     [(pys ''symbol'', JStr (pys ''BTCUSDT'')),
      (pys ''type'', JStr (pys ''STOP_MARKET'')),
      (pys ''side'', JStr (pys ''SELL'')),
      (pys ''workingType'', JStr (pys ''MARK_PRICE'')),
      (pys ''triggerPrice'', JStr (pys ''50000.1''))]"

definition demo_limit_order :: "(pystr \<times> int json) list" where
  "demo_limit_order =
     [(pys ''symbol'', JStr (pys ''BTCUSDT'')),
      (pys ''type'', JStr (pys ''LIMIT'')),
      (pys ''side'', JStr (pys ''BUY'')),
      (pys ''workingType'', JStr (pys ''CONTRACT_PRICE'')),
      (pys ''triggerPrice'', JStr (pys ''50000.1''))]"

definition demo_time :: "int json \<Rightarrow> error + pystr" where
  "demo_time v = Inr (pys ''2024-01-01 00:00:00'')"

definition demo_positions :: "int json list" where
  "demo_positions =
     [JDict [(pys ''symbol'', JStr (pys ''BTCUSDT'')), (pys ''positionAmt'', JStr (pys ''0''))],
      JDict [(pys ''symbol'', JStr (pys ''ETHUSDT'')), (pys ''positionAmt'', JStr (pys ''-0.001''))]]"

text \<open>
  \<open>st.selectbox\<close> as Streamlit implements it, for a user who leaves the preselected
  option: an index that is not a position of the options raises
  StreamlitValueOutOfRangeError, and otherwise the option at the index is returned.
  (With no options at all Streamlit returns \<open>None\<close>, which is not a page number; the
  stand-in has the error there too. The program offers no options only with a negative
  page size.)
\<close>

definition demo_select :: "pystr \<Rightarrow> int list \<Rightarrow> int \<Rightarrow> pystr \<Rightarrow> error + int" where
  "demo_select label options index key =
     (if 0 \<le> index \<and> index < int (length options) then Inr (options ! nat index)
      else Inl (LibraryError (pys ''StreamlitValueOutOfRangeError'')))"

definition demo_rows :: "int list" where
  "demo_rows = [10, 11, 12, 13, 14, 15, 16, 17, 18, 19, 20, 21]"

definition demo_params :: "(pystr \<times> pval) list" where
  "demo_params = [(pys ''timestamp'', PInt 1700000000000), (pys ''limit'', PInt 50)]"

definition demo_http :: "pystr \<Rightarrow> (pystr \<times> pystr) list \<Rightarrow> error + int response" where
  "demo_http url headers = Inr \<lparr> resp_text = pys ''<html>Bad Gateway</html>'', resp_json = Inl ValueError \<rparr>"



section \<open>Properties of the presenter\<close>

lemma pys_simps:
  "pys [] = []" "pys (c # cs) = of_char c # pys cs"
  by (simp_all add: pys_def)

text \<open>
  C2. With a trigger price that converts to a float above zero, the condition is the
  label, the operator and the price formatted with \<open>.4f\<close>, separated by spaces: a
  take-profit type gives \<open>>=\<close> for SELL and \<open><=\<close> for BUY, a stop type gives \<open><=\<close> for
  SELL and \<open>>=\<close> for BUY, and the label is the mark-price label exactly when workingType
  is MARK_PRICE. When the trigger price is absent, does not convert, or is not above
  zero, the condition is the placeholder \<open>"-"\<close>.
\<close>

theorem trigger_condition_directional:
  "(\<forall>tp. py_float fl (order_get order ''triggerPrice'') = Inr tp \<and> gt_zero fl tp \<longrightarrow>
      (let ot = order_get order ''type'';
           side = order_get order ''side'';
           lbl = (if order_get order ''workingType'' = JStr (pys ''MARK_PRICE'')
                  then label_mark_price else label_last_price)
       in (ot \<in> {JStr (pys ''TAKE_PROFIT_MARKET''), JStr (pys ''TAKE_PROFIT'')} \<longrightarrow>
             (side = JStr (pys ''SELL'') \<longrightarrow>
                trigger_condition fl order = lbl @ pys '' >= '' @ fmt4 fl tp) \<and>
             (side = JStr (pys ''BUY'') \<longrightarrow>
                trigger_condition fl order = lbl @ pys '' <= '' @ fmt4 fl tp)) \<and>
          (ot \<in> {JStr (pys ''STOP_MARKET''), JStr (pys ''STOP'')} \<longrightarrow>
             (side = JStr (pys ''SELL'') \<longrightarrow>
                trigger_condition fl order = lbl @ pys '' <= '' @ fmt4 fl tp) \<and>
             (side = JStr (pys ''BUY'') \<longrightarrow>
                trigger_condition fl order = lbl @ pys '' >= '' @ fmt4 fl tp)))) \<and>
   ((\<forall>tp. py_float fl (order_get order ''triggerPrice'') = Inr tp \<longrightarrow> \<not> gt_zero fl tp) \<longrightarrow>
      trigger_condition fl order = pys ''-'') \<and>
   (map_of order (pys ''triggerPrice'') = None \<longrightarrow> trigger_condition fl order = pys ''-'')"
proof (intro conjI allI impI)
  fix tp
  assume h: "py_float fl (order_get order ''triggerPrice'') = Inr tp \<and> gt_zero fl tp"
  then show "let ot = order_get order ''type'';
           side = order_get order ''side'';
           lbl = (if order_get order ''workingType'' = JStr (pys ''MARK_PRICE'')
                  then label_mark_price else label_last_price)
       in (ot \<in> {JStr (pys ''TAKE_PROFIT_MARKET''), JStr (pys ''TAKE_PROFIT'')} \<longrightarrow>
             (side = JStr (pys ''SELL'') \<longrightarrow>
                trigger_condition fl order = lbl @ pys '' >= '' @ fmt4 fl tp) \<and>
             (side = JStr (pys ''BUY'') \<longrightarrow>
                trigger_condition fl order = lbl @ pys '' <= '' @ fmt4 fl tp)) \<and>
          (ot \<in> {JStr (pys ''STOP_MARKET''), JStr (pys ''STOP'')} \<longrightarrow>
             (side = JStr (pys ''SELL'') \<longrightarrow>
                trigger_condition fl order = lbl @ pys '' <= '' @ fmt4 fl tp) \<and>
             (side = JStr (pys ''BUY'') \<longrightarrow>
                trigger_condition fl order = lbl @ pys '' >= '' @ fmt4 fl tp))"
    by (simp add: trigger_condition_def Let_def pys_simps)
next
  assume "\<forall>tp. py_float fl (order_get order ''triggerPrice'') = Inr tp \<longrightarrow> \<not> gt_zero fl tp"
  then show "trigger_condition fl order = pys ''-''"
    by (simp add: trigger_condition_def Let_def split: sum.splits)
next
  assume "map_of order (pys ''triggerPrice'') = None"
  then show "trigger_condition fl order = pys ''-''"
    by (simp add: trigger_condition_def Let_def order_get_def dict_get_def py_float_def)
qed

theorem trigger_condition_directional_witness:
  "trigger_condition demo_float demo_stop_order = label_mark_price @ pys '' <= 50000.1000'' \<and>
   trigger_condition demo_float [(pys ''type'', JStr (pys ''STOP''))] = pys ''-''"
proof -
  have p: "py_float demo_float (order_get demo_stop_order ''triggerPrice'') = Inr 500001000 \<and>
           gt_zero demo_float 500001000"
    by (simp add: py_float_def order_get_def dict_get_def demo_stop_order_def demo_float_def pys_simps)
  have t: "order_get demo_stop_order ''type'' = JStr (pys ''STOP_MARKET'')"
          "order_get demo_stop_order ''side'' = JStr (pys ''SELL'')"
          "order_get demo_stop_order ''workingType'' = JStr (pys ''MARK_PRICE'')"
    by (simp_all add: order_get_def dict_get_def demo_stop_order_def pys_simps)
  have f: "fmt4 demo_float 500001000 = pys ''50000.1000''"
    by (simp add: demo_float_def)
  have n: "map_of [(pys ''type'', JStr (pys ''STOP'') :: int json)] (pys ''triggerPrice'') = None"
    by (simp add: pys_simps)
  from trigger_condition_directional [of demo_float demo_stop_order] p
  have a: "trigger_condition demo_float demo_stop_order = label_mark_price @ pys '' <= 50000.1000''"
    by (simp add: Let_def t f pys_simps)
  from trigger_condition_directional [of demo_float "[(pys ''type'', JStr (pys ''STOP''))]"] n
  have b: "trigger_condition demo_float [(pys ''type'', JStr (pys ''STOP''))] = pys ''-''"
    by simp
  from a b show ?thesis by simp
qed

text \<open>
  C9. With a trigger price above zero and an order type that is none of the four
  directional types, the condition is not the placeholder: it is the label, the
  character \<open>-\<close> in the operator's place, and the formatted price.
\<close>

theorem trigger_condition_other_types:
  assumes "py_float fl (order_get order ''triggerPrice'') = Inr tp" and "gt_zero fl tp"
    and "order_get order ''type'' \<notin> {JStr (pys ''TAKE_PROFIT_MARKET''), JStr (pys ''TAKE_PROFIT''),
                                       JStr (pys ''STOP_MARKET''), JStr (pys ''STOP'')}"
  shows "trigger_condition fl order =
           (if order_get order ''workingType'' = JStr (pys ''MARK_PRICE'')
            then label_mark_price else label_last_price) @ pys '' - '' @ fmt4 fl tp \<and>
         trigger_condition fl order \<noteq> pys ''-''"
  using assms
  by (simp add: trigger_condition_def Let_def pys_simps label_mark_price_def label_last_price_def)

theorem trigger_condition_other_types_witness:
  "trigger_condition demo_float demo_limit_order = label_last_price @ pys '' - 50000.1000'' \<and>
   trigger_condition demo_float demo_limit_order \<noteq> pys ''-''"
proof -
  have p: "py_float demo_float (order_get demo_limit_order ''triggerPrice'') = Inr 500001000"
    by (simp add: py_float_def order_get_def dict_get_def demo_limit_order_def demo_float_def pys_simps)
  have g: "gt_zero demo_float 500001000"
    by (simp add: demo_float_def)
  have t: "order_get demo_limit_order ''type'' \<notin> {JStr (pys ''TAKE_PROFIT_MARKET''), JStr (pys ''TAKE_PROFIT''),
                                       JStr (pys ''STOP_MARKET''), JStr (pys ''STOP'')}"
    by (simp add: order_get_def dict_get_def demo_limit_order_def pys_simps)
  have w: "order_get demo_limit_order ''workingType'' \<noteq> JStr (pys ''MARK_PRICE'')"
    by (simp add: order_get_def dict_get_def demo_limit_order_def pys_simps)
  have f: "fmt4 demo_float 500001000 = pys ''50000.1000''"
    by (simp add: demo_float_def)
  from trigger_condition_other_types [OF p g t] w f show ?thesis
    by (simp add: pys_simps)
qed

lemma map_of_type_map_None:
  "s \<notin> set (map fst type_map) \<Longrightarrow> map_of type_map s = None"
  by (simp add: map_of_eq_None_iff)

lemma type_label_pass_through:
  assumes "hashable ot" and "ot \<notin> JStr ` set (map fst type_map)"
  shows "type_label ot = Inr ot"
proof (cases ot)
  case (JStr s)
  with assms have "s \<notin> set (map fst type_map)" by auto
  then have "map_of type_map s = None" by (rule map_of_type_map_None)
  with JStr show ?thesis by (simp add: type_label_def)
qed (use assms in \<open>simp_all add: type_label_def\<close>)

lemma process_order_row_type:
  "process_order fl fmt_time order = Inr row \<Longrightarrow>
   type_label (order_get order ''type'') = Inr (row_type row)"
  by (auto simp: process_order_def Let_def split: sum.splits)

text \<open>
  C7. The table has the six keys STOP_MARKET, TAKE_PROFIT_MARKET, STOP, TAKE_PROFIT,
  LIMIT and MARKET, each mapped to its label; a hashable code that is not a key is its
  own label; and the type column of a processed order is this lookup of the order's
  type.
\<close>

theorem type_label_table:
  "map fst type_map =
     [pys ''STOP_MARKET'', pys ''TAKE_PROFIT_MARKET'', pys ''STOP'',
      pys ''TAKE_PROFIT'', pys ''LIMIT'', pys ''MARKET''] \<and>
   type_label (JStr (pys ''STOP_MARKET'') :: 'f json) = Inr (JStr label_market_stop) \<and>
   type_label (JStr (pys ''TAKE_PROFIT_MARKET'') :: 'f json) = Inr (JStr label_market_take_profit) \<and>
   type_label (JStr (pys ''STOP'') :: 'f json) = Inr (JStr label_limit_stop) \<and>
   type_label (JStr (pys ''TAKE_PROFIT'') :: 'f json) = Inr (JStr label_limit_take_profit) \<and>
   type_label (JStr (pys ''LIMIT'') :: 'f json) = Inr (JStr label_limit_order) \<and>
   type_label (JStr (pys ''MARKET'') :: 'f json) = Inr (JStr label_market_order) \<and>
   (\<forall>ot :: 'f json. hashable ot \<and> ot \<notin> JStr ` set (map fst type_map) \<longrightarrow> type_label ot = Inr ot) \<and>
   (\<forall>(fl :: 'f pyfloat) fmt_time order row. process_order fl fmt_time order = Inr row \<longrightarrow>
      type_label (order_get order ''type'') = Inr (row_type row))"
proof -
  have keys: "map fst type_map =
     [pys ''STOP_MARKET'', pys ''TAKE_PROFIT_MARKET'', pys ''STOP'',
      pys ''TAKE_PROFIT'', pys ''LIMIT'', pys ''MARKET'']"
    by (simp add: type_map_def)
  have known:
    "type_label (JStr (pys ''STOP_MARKET'') :: 'f json) = Inr (JStr label_market_stop)"
    "type_label (JStr (pys ''TAKE_PROFIT_MARKET'') :: 'f json) = Inr (JStr label_market_take_profit)"
    "type_label (JStr (pys ''STOP'') :: 'f json) = Inr (JStr label_limit_stop)"
    "type_label (JStr (pys ''TAKE_PROFIT'') :: 'f json) = Inr (JStr label_limit_take_profit)"
    "type_label (JStr (pys ''LIMIT'') :: 'f json) = Inr (JStr label_limit_order)"
    "type_label (JStr (pys ''MARKET'') :: 'f json) = Inr (JStr label_market_order)"
    by (simp_all add: type_label_def type_map_def pys_simps)
  from keys known show ?thesis
    using type_label_pass_through process_order_row_type by blast
qed

theorem type_label_table_witness:
  "type_label (JStr (pys ''TRAILING_STOP_MARKET'') :: int json) = Inr (JStr (pys ''TRAILING_STOP_MARKET'')) \<and>
   type_label (JInt 7 :: int json) = Inr (JInt 7) \<and>
   (case process_order demo_float demo_time demo_stop_order of
      Inl e \<Rightarrow> False
    | Inr row \<Rightarrow> row_type row = JStr label_market_stop)"
proof -
  note tbl = type_label_table [where ?'f = int]
  have "hashable (JStr (pys ''TRAILING_STOP_MARKET'') :: int json) \<and>
        (JStr (pys ''TRAILING_STOP_MARKET'') :: int json) \<notin> JStr ` set (map fst type_map)"
    by (simp add: type_map_def pys_simps image_iff)
  with tbl have a: "type_label (JStr (pys ''TRAILING_STOP_MARKET'') :: int json) =
                      Inr (JStr (pys ''TRAILING_STOP_MARKET''))"
    by blast
  have "hashable (JInt 7 :: int json) \<and> (JInt 7 :: int json) \<notin> JStr ` set (map fst type_map)"
    by (simp add: image_iff)
  with tbl have b: "type_label (JInt 7 :: int json) = Inr (JInt 7)"
    by blast
  have t: "order_get demo_stop_order ''type'' = JStr (pys ''STOP_MARKET'')"
    by (simp add: order_get_def dict_get_def demo_stop_order_def pys_simps)
  have "\<exists>row. process_order demo_float demo_time demo_stop_order = Inr row"
    by (simp add: process_order_def Let_def t type_label_def type_map_def demo_time_def pys_simps)
  then obtain row where r: "process_order demo_float demo_time demo_stop_order = Inr row" ..
  with tbl have "type_label (order_get demo_stop_order ''type'') = Inr (row_type row)"
    by blast
  with tbl have "row_type row = JStr label_market_stop"
    by (simp add: t)
  with r a b show ?thesis by simp
qed

lemma filter_active_eq:
  "\<forall>p\<in>set ps. \<exists>x. position_amt fl p = Inr x \<Longrightarrow>
   filter_active fl ps =
     Inr (filter (\<lambda>p. case position_amt fl p of Inl e \<Rightarrow> False | Inr x \<Rightarrow> ne_zero fl x) ps)"
  by (induction ps) auto

text \<open>
  C6. On a list of positions whose amounts all convert to a float, the filter returns
  exactly the entries whose amount is not zero, in their order: an entry is kept if
  and only if its amount differs from zero.
\<close>

theorem active_positions_nonzero:
  assumes "\<forall>p\<in>set ps. \<exists>x. position_amt fl p = Inr x"
  shows "\<exists>r. active_positions fl (JList ps) = Inr r \<and>
           r = filter (\<lambda>p. case position_amt fl p of Inl e \<Rightarrow> False | Inr x \<Rightarrow> ne_zero fl x) ps \<and>
           (\<forall>p\<in>set ps. \<forall>x. position_amt fl p = Inr x \<longrightarrow> (p \<in> set r \<longleftrightarrow> ne_zero fl x))"
  using filter_active_eq [OF assms]
  by (auto simp: active_positions_def py_iter_def)

theorem active_positions_nonzero_witness:
  "active_positions demo_float (JList demo_positions) =
     Inr [JDict [(pys ''symbol'', JStr (pys ''ETHUSDT'')), (pys ''positionAmt'', JStr (pys ''-0.001''))]]"
proof -
  have h: "\<forall>p\<in>set demo_positions. \<exists>x. position_amt demo_float p = Inr x"
    by (simp add: demo_positions_def position_amt_def py_float_def demo_float_def pys_simps)
  show ?thesis
    using active_positions_nonzero [OF h]
    by (simp add: demo_positions_def position_amt_def py_float_def demo_float_def pys_simps)
qed

section \<open>Properties of the paginator\<close>

lemma pred_div_pos:
  fixes n k :: int
  assumes "0 < k"
  shows "(n - 1) div k = (if n mod k = 0 then n div k - 1 else n div k)"
proof (cases "n mod k = 0")
  case True
  from True have "n = k * (n div k)"
    by (metis mult_div_mod_eq add.right_neutral)
  then have "n - 1 = k * (n div k - 1) + (k - 1)"
    by (simp add: algebra_simps)
  moreover have "0 \<le> k - 1" "k - 1 < k" using assms by simp_all
  ultimately have "(n - 1) div k = n div k - 1"
    by (rule int_div_pos_eq)
  with True show ?thesis by simp
next
  case False
  have "0 \<le> n mod k" "n mod k < k" using assms by simp_all
  with False have b: "0 \<le> n mod k - 1" "n mod k - 1 < k" by simp_all
  have "n - 1 = k * (n div k) + (n mod k - 1)" by simp
  from this b have "(n - 1) div k = n div k"
    by (rule int_div_pos_eq)
  with False show ?thesis by simp
qed

lemma pages_ceiling:
  fixes n k :: int
  assumes "0 < k"
  shows "(n - 1) div k + 1 = \<lceil>real_of_int n / real_of_int k\<rceil>"
proof -
  have "\<lceil>real_of_int n / real_of_int k\<rceil> = - (- n div k)"
    by (rule ceiling_divide_eq_div)
  also have "\<dots> = (if n mod k = 0 then n div k else n div k + 1)"
    using assms by (simp add: zdiv_zminus1_eq_if)
  also have "\<dots> = (n - 1) div k + 1"
    using assms by (simp add: pred_div_pos)
  finally show ?thesis by simp
qed

lemma take_drop_nth: "take n (drop m xs) = map (nth xs) [m ..< min (m + n) (length xs)]"
  by (rule nth_equalityI) auto

lemma py_slice_len: "0 \<le> k \<Longrightarrow> length (py_slice xs s (s + k)) \<le> nat k"
  by (auto simp: py_slice_def Let_def min_def max_def)

lemma py_slice_sub: "\<exists>i j. py_slice xs s e = take j (drop i xs)"
  by (auto simp: py_slice_def Let_def)

lemma py_slice_nonneg:
  assumes "0 \<le> s" and "0 \<le> k" 
  shows "py_slice xs s (s + k) = take (nat k) (drop (nat s) xs)"
proof (cases "s < int (length xs)")
  case True
  show ?thesis
  proof (cases "s + k \<le> int (length xs)")
    case True
    with assms \<open>s < int (length xs)\<close> show ?thesis
      by (simp add: py_slice_def Let_def min_def)
  next
    case False
    with assms \<open>s < int (length xs)\<close> show ?thesis
      by (simp add: py_slice_def Let_def min_def)
  qed
next
  case False
  with assms show ?thesis
    by (simp add: py_slice_def Let_def min_def)
qed

lemma py_slice_beyond: "int (length xs) \<le> s \<Longrightarrow> py_slice xs s e = []"
  by (auto simp: py_slice_def Let_def)

text \<open>
  C3. With a positive page size \<open>K\<close> and a table of \<open>N\<close> rows: if \<open>N \<le> K\<close> the whole
  table is shown, no selectbox is called and the session state is unchanged. Otherwise
  the page is the stored one, or 1 when none is stored; the selectbox offers the pages
  1 to \<open>ceil(N / K)\<close>; the rows shown are the slice from \<open>(page - 1) * K\<close> to
  \<open>page * K\<close>, which for a page of at least 1 is the rows of the table at the indices of
  that range below \<open>N\<close>; the slice has at most \<open>K\<close> rows and is a contiguous part of the
  table.
\<close>

theorem paginated_table_pages:
  assumes "0 < K"
  shows
   "(int (length df) \<le> K \<longrightarrow>
       paginated_table sel df label K ss = ([StDataframe df], Inr ss)) \<and>
    (K < int (length df) \<longrightarrow>
       (let page = (case ss (label @ pys ''_page'') of None \<Rightarrow> 1 | Some p \<Rightarrow> p);
            pages = \<lceil>real (length df) / real_of_int K\<rceil>;
            view = py_slice df ((page - 1) * K) (page * K)
        in fst (paginated_table sel df label K ss) =
             [StDataframe view,
              StSelectbox (selector_title @ label) [1..pages] (page - 1)
                (label @ pys ''_selector'')] \<and>
           (1 \<le> page \<longrightarrow>
              view = map (nth df) [nat ((page - 1) * K) ..< min (nat (page * K)) (length df)]) \<and>
           length view \<le> nat K \<and>
           (\<exists>i j. view = take j (drop i df))))"
proof (intro conjI impI)
  assume "int (length df) \<le> K"
  then show "paginated_table sel df label K ss = ([StDataframe df], Inr ss)"
    by (simp add: paginated_table_def)
next
  assume big: "K < int (length df)"
  define page where "page = (case ss (label @ pys ''_page'') of None \<Rightarrow> 1 | Some p \<Rightarrow> p)"
  define view where "view = py_slice df ((page - 1) * K) (page * K)"
  have e: "(page - 1) * K + K = page * K"
    by (simp add: algebra_simps)
  have e': "\<And>x. (x - 1) * K + K = x * K"
    by (simp add: algebra_simps)
  have pages: "(int (length df) - 1) div K + 1 = \<lceil>real (length df) / real_of_int K\<rceil>"
    using pages_ceiling [OF assms, of "int (length df)"] by simp
  have trace: "fst (paginated_table sel df label K ss) =
             [StDataframe view,
              StSelectbox (selector_title @ label) [1..\<lceil>real (length df) / real_of_int K\<rceil>]
                (page - 1) (label @ pys ''_selector'')]"
    using big assms
    by (simp add: paginated_table_def Let_def pages [symmetric] page_def view_def e'
        split: sum.splits)
  have len: "length view \<le> nat K"
    unfolding view_def e [symmetric] using assms by (intro py_slice_len) simp
  have sub: "\<exists>i j. view = take j (drop i df)"
    unfolding view_def by (rule py_slice_sub)
  have rows: "view = map (nth df) [nat ((page - 1) * K) ..< min (nat (page * K)) (length df)]"
    if "1 \<le> page"
  proof -
    from that assms have s: "0 \<le> (page - 1) * K" by simp
    have "view = take (nat K) (drop (nat ((page - 1) * K)) df)"
      unfolding view_def e [symmetric] using s assms by (intro py_slice_nonneg) simp_all
    also have "\<dots> = map (nth df) [nat ((page - 1) * K) ..< min (nat ((page - 1) * K) + nat K) (length df)]"
      by (rule take_drop_nth)
    also have "nat ((page - 1) * K) + nat K = nat (page * K)"
      unfolding e [symmetric] using s assms by (simp add: nat_add_distrib)
    finally show ?thesis .
  qed
  from trace len sub rows
  show "let page = (case ss (label @ pys ''_page'') of None \<Rightarrow> 1 | Some p \<Rightarrow> p);
            pages = \<lceil>real (length df) / real_of_int K\<rceil>;
            view = py_slice df ((page - 1) * K) (page * K)
        in fst (paginated_table sel df label K ss) =
             [StDataframe view,
              StSelectbox (selector_title @ label) [1..pages] (page - 1)
                (label @ pys ''_selector'')] \<and>
           (1 \<le> page \<longrightarrow>
              view = map (nth df) [nat ((page - 1) * K) ..< min (nat (page * K)) (length df)]) \<and>
           length view \<le> nat K \<and>
           (\<exists>i j. view = take j (drop i df))"
    unfolding Let_def page_def [symmetric] view_def [symmetric] by blast
qed

theorem paginated_table_pages_witness:
  "paginated_table demo_select [1, 2, 3 :: int] (pys ''t'') 5 Map.empty =
     ([StDataframe [1, 2, 3]], Inr Map.empty) \<and>
   fst (paginated_table demo_select demo_rows (pys ''t'') 5 [pys ''t_page'' \<mapsto> 3]) =
     [StDataframe [20, 21],
      StSelectbox (selector_title @ pys ''t'') [1, 2, 3] 2 (pys ''t_selector'')]"
proof -
  have k: "(0::int) < 5" by simp
  have a: "paginated_table demo_select [1, 2, 3 :: int] (pys ''t'') 5 Map.empty =
     ([StDataframe [1, 2, 3]], Inr Map.empty)"
    using paginated_table_pages [OF k, of "[1, 2, 3 :: int]" demo_select "pys ''t''" Map.empty]
    by simp
  have p: "\<lceil>real (length demo_rows) / real_of_int 5\<rceil> = 3"
    by (simp add: demo_rows_def ceiling_divide_eq_div_numeral)
  have u: "[1..3::int] = [1, 2, 3]"
    by (simp add: upto.simps)
  have b: "fst (paginated_table demo_select demo_rows (pys ''t'') 5 [pys ''t_page'' \<mapsto> 3]) =
     [StDataframe [20, 21],
      StSelectbox (selector_title @ pys ''t'') [1, 2, 3] 2 (pys ''t_selector'')]"
    using paginated_table_pages [OF k, of demo_rows demo_select "pys ''t''" "[pys ''t_page'' \<mapsto> 3]"]
    by (simp add: Let_def p u) (simp add: demo_rows_def py_slice_def pys_simps upto.simps)
  from a b show ?thesis by simp
qed

lemma paginated_table_stale_index:
  assumes "0 < K" and "int (length df) \<le> (p - 1) * K"
  shows "int (length [1..(int (length df) - 1) div K + 1]) \<le> p - 1"
proof -
  have "(int (length df) - 1) div K < p - 1"
  proof -
    have "K * ((int (length df) - 1) div K) + (int (length df) - 1) mod K = int (length df) - 1"
      by (rule mult_div_mod_eq)
    moreover have "0 \<le> (int (length df) - 1) mod K"
      using assms(1) by simp
    ultimately have "K * ((int (length df) - 1) div K) \<le> int (length df) - 1"
      by linarith
    also have "\<dots> < K * (p - 1)"
      using assms(2) by (simp add: mult.commute)
    finally show ?thesis
      using assms(1) by (simp add: mult_less_cancel_left_pos)
  qed
  moreover have "0 \<le> p - 1"
  proof -
    have "0 \<le> (p - 1) * K" using assms(2) by simp
    with assms(1) show ?thesis by (simp add: zero_le_mult_iff)
  qed
  ultimately show ?thesis by simp
qed

lemma paginated_table_stale_options:
  assumes "0 < K" and "K < int (length df)"
  shows "[1..(int (length df) - 1) div K + 1] \<noteq> []"
proof -
  from assms have "0 \<le> int (length df) - 1" by linarith
  with assms(1) have "0 \<le> (int (length df) - 1) div K"
    by (simp only: pos_imp_zdiv_nonneg_iff)
  then show ?thesis by simp
qed

text \<open>
  C10, amended. With more rows than the page size and a stored page \<open>p\<close> whose first
  row \<open>(p - 1) * K\<close> is not below the number of rows, lines 50 to 57 raise nothing: the
  slice is total and the slice shown is empty. The paginator then calls \<open>st.selectbox\<close>
  with the index \<open>p - 1\<close>, which for a positive page size is not a position of its
  options (of which there are some); it raises exactly what that call raises, and
  stores the page returned when the call returns.
\<close>

theorem paginated_table_stale_page:
  assumes "K < int (length df)"
    and "ss (label @ pys ''_page'') = Some p"
    and "int (length df) \<le> (p - 1) * K"
  shows
    "(let options = [1..(int (length df) - 1) div K + 1];
          title = selector_title @ label;
          key = label @ pys ''_selector''
      in paginated_table sel df label K ss =
           ([StDataframe [], StSelectbox title options (p - 1) key],
            case sel title options (p - 1) key of
              Inl e \<Rightarrow> Inl e
            | Inr new_page \<Rightarrow> Inr (ss(label @ pys ''_page'' \<mapsto> new_page))) \<and>
         (0 < K \<longrightarrow> options \<noteq> [] \<and> int (length options) \<le> p - 1) \<and>
         (\<forall>e. sel title options (p - 1) key = Inl e \<longrightarrow>
              snd (paginated_table sel df label K ss) = Inl e)) \<and>
     py_slice df ((p - 1) * K) ((p - 1) * K + K) = []"
proof -
  have nz: "K \<noteq> 0" using assms(1,3) by auto
  have empty: "py_slice df ((p - 1) * K) ((p - 1) * K + K) = []"
    using assms(3) by (rule py_slice_beyond)
  have run: "paginated_table sel df label K ss =
           ([StDataframe [], StSelectbox (selector_title @ label) [1..(int (length df) - 1) div K + 1] (p - 1) (label @ pys ''_selector'')],
            case sel (selector_title @ label) [1..(int (length df) - 1) div K + 1] (p - 1) (label @ pys ''_selector'') of
              Inl e \<Rightarrow> Inl e
            | Inr new_page \<Rightarrow> Inr (ss(label @ pys ''_page'' \<mapsto> new_page)))"
    using assms(1,2) nz
    by (simp add: paginated_table_def Let_def empty split: sum.splits)
  have raises: "snd (paginated_table sel df label K ss) = Inl e"
    if "sel (selector_title @ label) [1..(int (length df) - 1) div K + 1] (p - 1)
          (label @ pys ''_selector'') = Inl e" for e
    using that by (simp add: run)
  have index: "[1..(int (length df) - 1) div K + 1] \<noteq> [] \<and>
               int (length [1..(int (length df) - 1) div K + 1]) \<le> p - 1" if "0 < K"
    using paginated_table_stale_index [OF that assms(3)]
      paginated_table_stale_options [OF that assms(1)] by simp
  from run raises index empty show ?thesis
    unfolding Let_def by blast
qed

theorem paginated_table_stale_page_witness:
  "paginated_table demo_select demo_rows (pys ''t'') 5 [pys ''t_page'' \<mapsto> 4] =
     ([StDataframe [], StSelectbox (selector_title @ pys ''t'') [1, 2, 3] 3 (pys ''t_selector'')],
      Inl (LibraryError (pys ''StreamlitValueOutOfRangeError'')))"
proof -
  have a: "5 < int (length demo_rows)" by (simp add: demo_rows_def)
  have b: "[pys ''t_page'' \<mapsto> 4] (pys ''t'' @ pys ''_page'') = Some (4::int)"
    by (simp add: pys_simps)
  have c: "int (length demo_rows) \<le> (4 - 1) * 5" by (simp add: demo_rows_def)
  have d: "[1..(int (length demo_rows) - 1) div 5 + 1] = [1, 2, 3]"
    by (simp add: demo_rows_def upto.simps)
  have e: "pys ''t'' @ pys ''_page'' = pys ''t_page''"
    by (simp add: pys_simps)
  have f: "demo_select title [1, 2, 3] 3 key = Inl (LibraryError (pys ''StreamlitValueOutOfRangeError''))"
    for title key
    by (simp add: demo_select_def)
  show ?thesis
    using paginated_table_stale_page
      [where sel = demo_select and df = demo_rows and K = 5 and label = "pys ''t''"
         and p = 4 and ss = "[pys ''t_page'' \<mapsto> 4]", OF a b c]
    by (simp add: Let_def d e f) (simp add: pys_simps)
qed

text \<open>
  C10 as stated fails: on a table of 12 rows with pages of 5 and the stored page 4, the
  index 3 is passed to a selectbox of three options, Streamlit raises, and so does the
  paginator.
\<close>

theorem paginated_table_stale_page_raises:
  "snd (paginated_table demo_select demo_rows (pys ''t'') 5 [pys ''t_page'' \<mapsto> 4]) =
     Inl (LibraryError (pys ''StreamlitValueOutOfRangeError''))"
proof -
  have n: "int (length demo_rows) = 12" by (simp add: demo_rows_def)
  have o: "[1..3::int] = [1, 2, 3]" by (simp add: upto.simps)
  have s: "demo_select title [1, 2, 3] 3 key = Inl (LibraryError (pys ''StreamlitValueOutOfRangeError''))"
    for title key
    by (simp add: demo_select_def)
  show ?thesis
    by (simp add: paginated_table_def Let_def n o s pys_simps)
qed

text \<open>A page size of zero on a table with rows: line 51 divides by zero.\<close>

lemma paginated_table_zero_page_size:
  "df \<noteq> [] \<Longrightarrow> paginated_table sel df label 0 ss = ([], Inl ZeroDivisionError)"
  by (simp add: paginated_table_def)

text \<open>
  Stored pages stay at least 1 as long as the selectbox returns one of its options,
  which are the numbers from 1.
\<close>

lemma paginated_table_page_numbers:
  assumes sel: "\<And>l opts i k v. sel l opts i k = Inr v \<Longrightarrow> v \<in> set opts"
    and ss: "\<And>k p. ss k = Some p \<Longrightarrow> 1 \<le> p"
    and run: "snd (paginated_table sel df label K ss) = Inr ss'"
    and new: "ss' k = Some p"
  shows "1 \<le> p"
proof (cases "int (length df) \<le> K")
  case True
  with run have "ss' = ss" by (simp add: paginated_table_def)
  with new ss show ?thesis by simp
next
  case False
  with run obtain opts l i key v where v: "sel l opts i key = Inr v"
    and opts: "opts = [1..(int (length df) - 1) div K + 1]"
    and upd: "ss' = ss(label @ pys ''_page'' \<mapsto> v)"
    by (auto simp: paginated_table_def Let_def split: if_splits sum.splits)
  from sel [OF v] opts have "1 \<le> v" by simp
  with new upd ss show ?thesis by (auto split: if_splits)
qed

section \<open>Properties of the signer\<close>

lemma length_word_bytes: "length (word_bytes w) = 4"
  by (simp add: word_bytes_def)

lemma length_state_bytes: "length (state_bytes st) = 32"
  by (induction st rule: state_bytes.induct) (simp add: length_word_bytes)

lemma length_sha256: "length (sha256 m) = 32"
  by (simp add: sha256_def length_state_bytes)

lemma length_hmac_sha256: "length (hmac_sha256 key msg) = 32"
  by (simp add: hmac_sha256_def Let_def length_sha256)

lemma length_hexdigest: "length (hexdigest bs) = 2 * length bs"
  by (induction bs) (simp_all add: hexdigest_def)

lemma hex_lower_digit: "d < 16 \<Longrightarrow> hex_lower d \<in> set (pys ''0123456789abcdef'')"
proof -
  assume "d < 16"
  then have "d \<in> set [0..<16]" by simp
  also have "[0..<16] = [0, 1, 2, 3, 4, 5, 6, 7, 8, 9, 10, 11, 12, 13, 14, 15 :: nat]"
    by code_simp
  finally show ?thesis
    by (auto simp: hex_lower_def pys_simps)
qed

lemma unat_byte_div: "unat (b :: byte) div 16 < 16"
proof -
  have "unat b < 256" using unsigned_less [of b, where ?'a = nat] by simp
  then show ?thesis by simp
qed

lemma set_hexdigest: "set (hexdigest bs) \<subseteq> set (pys ''0123456789abcdef'')"
proof -
  have "\<And>b :: byte. hex_lower (unat b div 16) \<in> set (pys ''0123456789abcdef'')"
    by (rule hex_lower_digit) (rule unat_byte_div)
  moreover have "\<And>b :: byte. hex_lower (unat b mod 16) \<in> set (pys ''0123456789abcdef'')"
    by (rule hex_lower_digit) simp
  ultimately show ?thesis
    by (auto simp: hexdigest_def)
qed

lemma utf8_char_ok:
  "c < 0xD800 \<or> (0xDFFF < c \<and> c < 0x110000) \<Longrightarrow> \<exists>bs. utf8_char c = Inr bs"
  by (auto simp: utf8_char_def)

lemma utf8_encode_ok: "encodable s \<Longrightarrow> \<exists>bs. utf8_encode s = Inr bs"
proof (induction s)
  case Nil
  then show ?case by simp
next
  case (Cons c cs)
  then have "encodable cs" and c: "c < 0xD800 \<or> (0xDFFF < c \<and> c < 0x110000)"
    by (simp_all add: encodable_def)
  with Cons.IH obtain rest where "utf8_encode cs = Inr rest" by blast
  moreover from utf8_char_ok [OF c] obtain bs where "utf8_char c = Inr bs" ..
  ultimately show ?case by simp
qed

lemma utf8_encode_ascii: "\<forall>c\<in>set s. c < 128 \<Longrightarrow> utf8_encode s = Inr (map of_nat s)"
  by (induction s) (simp_all add: utf8_char_def)

lemma quote_byte_ascii: "\<forall>c\<in>set (quote_byte b). c < 128"
proof -
  have "unat b div 16 < 16" by (rule unat_byte_div)
  moreover have "unat b mod 16 < 16" by simp
  ultimately show ?thesis
    by (auto simp: quote_byte_def Let_def always_safe_def hex_upper_def pys_simps)
qed

lemma quote_plus_ascii: "quote_plus s = Inr q \<Longrightarrow> \<forall>c\<in>set q. c < 128"
  using quote_byte_ascii by (auto simp: quote_plus_def split: sum.splits)

lemma quote_plus_ok: "encodable s \<Longrightarrow> \<exists>q. quote_plus s = Inr q"
  using utf8_encode_ok [of s] by (auto simp: quote_plus_def)

lemma digits_encodable: "encodable (digits n)"
proof (induction n rule: digits.induct)
  case (1 n)
  show ?case
  proof (cases "n < 10")
    case True
    then show ?thesis by (subst digits.simps) (simp add: encodable_def)
  next
    case False
    with 1 have "encodable (digits (n div 10))" by simp
    moreover have "n mod 10 < 10" by simp
    ultimately show ?thesis using False
      by (subst digits.simps) (auto simp: encodable_def)
  qed
qed

lemma encodable_pys: "encodable (pys s)"
  unfolding encodable_def pys_def
proof
  fix c :: nat
  assume "c \<in> set (map of_char s)"
  then obtain x :: char where "c = of_char x" by auto
  moreover have "of_char x < (256::nat)" by simp
  ultimately have "c < 256" by simp
  then show "c < 0xD800 \<or> (0xDFFF < c \<and> c < 0x110000)" by linarith
qed

lemma str_of_int_ok:
  assumes "\<bar>i\<bar> < 10 ^ int_max_str_digits"
  shows "\<exists>s. str_of_int i = Inr s \<and> encodable s"
proof -
  have "encodable (digits n)" for n by (rule digits_encodable)
  then have "encodable (45 # digits n)" for n by (simp add: encodable_def)
  with \<open>\<And>n. encodable (digits n)\<close> assms show ?thesis
    by (simp add: str_of_int_def)
qed

text \<open>A timestamp of the clock is far below the limit of \<open>str\<close>.\<close>

lemma value_ok_small: "\<bar>i\<bar> < 10 ^ 18 \<Longrightarrow> value_ok (PInt i)"
proof -
  assume "\<bar>i\<bar> < 10 ^ 18"
  also have "(10::int) ^ 18 \<le> 10 ^ int_max_str_digits"
    by (rule power_increasing) (simp_all add: int_max_str_digits_def)
  finally show ?thesis by (simp add: value_ok_def)
qed

lemma value_ok_simps:
  "value_ok (PStr s) = encodable s" "value_ok (PFloat f)" "value_ok (PBool b)" "value_ok PNone"
  by (simp_all add: value_ok_def)

lemma py_str_ok: "value_ok v \<Longrightarrow> \<exists>s. py_str v = Inr s \<and> encodable s"
  by (cases v) (simp_all add: value_ok_def str_of_int_ok encodable_pys)

lemma py_str_error: "py_str v = Inl e \<Longrightarrow> e = ValueError \<and> \<not> value_ok v"
  by (cases v) (auto simp: value_ok_def str_of_int_def split: if_splits)

lemma utf8_encode_error: "utf8_encode s = Inl e \<Longrightarrow> e = UnicodeEncodeError"
  by (induction s) (auto simp: utf8_char_def split: if_splits sum.splits)

lemma utf8_encode_encodable: "utf8_encode s = Inr bs \<Longrightarrow> encodable s"
proof (induction s arbitrary: bs)
  case Nil
  then show ?case by (simp add: encodable_def)
next
  case (Cons c cs)
  from Cons.prems obtain b rest where c: "utf8_char c = Inr b" and r: "utf8_encode cs = Inr rest"
    by (auto split: sum.splits)
  from c have "c < 0xD800 \<or> (0xDFFF < c \<and> c < 0x110000)"
    by (auto simp: utf8_char_def split: if_splits)
  with Cons.IH [OF r] show ?case by (simp add: encodable_def)
qed

lemma quote_plus_error: "quote_plus s = Inl e \<Longrightarrow> e = UnicodeEncodeError"
  using utf8_encode_error by (auto simp: quote_plus_def split: sum.splits)

lemma quote_plus_encodable: "quote_plus s = Inr q \<Longrightarrow> encodable s"
  using utf8_encode_encodable by (auto simp: quote_plus_def split: sum.splits)

lemma urlencode_items_ok:
  "params_encodable params \<Longrightarrow> \<exists>l. urlencode_items params = Inr l \<and> (\<forall>x\<in>set l. \<forall>c\<in>set x. c < 128)"
proof (induction params)
  case Nil
  then show ?case by simp
next
  case (Cons kv rest)
  obtain k v where kv: "kv = (k, v)" by (cases kv)
  from Cons.prems kv have k: "encodable k" and v: "value_ok v" and r: "params_encodable rest"
    by (auto simp: params_encodable_def)
  from quote_plus_ok [OF k] obtain qk where qk: "quote_plus k = Inr qk" ..
  from py_str_ok [OF v] obtain s where s: "py_str v = Inr s" and es: "encodable s" by blast
  from quote_plus_ok [OF es] obtain qv where qv: "quote_plus s = Inr qv" ..
  from Cons.IH [OF r] obtain l where l: "urlencode_items rest = Inr l"
    and la: "\<forall>x\<in>set l. \<forall>c\<in>set x. c < 128" by blast
  from quote_plus_ascii [OF qk] quote_plus_ascii [OF qv]
  have "\<forall>c\<in>set (qk @ pys ''='' @ qv). c < 128" by (auto simp: pys_simps)
  with kv qk s qv l la show ?case by simp
qed

lemma urlencode_items_error:
  "urlencode_items params = Inl e \<Longrightarrow> e = UnicodeEncodeError \<or> e = ValueError"
proof (induction params)
  case Nil
  then show ?case by simp
next
  case (Cons kv rest)
  obtain k v where "kv = (k, v)" by (cases kv)
  with Cons show ?case
    by (auto split: sum.splits dest: quote_plus_error py_str_error)
qed

lemma urlencode_items_encodable: "urlencode_items params = Inr l \<Longrightarrow> params_encodable params"
proof (induction params arbitrary: l)
  case Nil
  then show ?case by (simp add: params_encodable_def)
next
  case (Cons kv rest)
  obtain k v where kv: "kv = (k, v)" by (cases kv)
  from Cons.prems kv obtain qk s qv l' where qk: "quote_plus k = Inr qk"
    and s: "py_str v = Inr s" and qv: "quote_plus s = Inr qv"
    and l': "urlencode_items rest = Inr l'"
    by (auto split: sum.splits)
  from s quote_plus_encodable [OF qv] have "value_ok v"
    by (cases v) (auto simp: value_ok_def str_of_int_def split: if_splits)
  with quote_plus_encodable [OF qk] Cons.IH [OF l'] kv show ?case
    by (simp add: params_encodable_def)
qed

lemma join_amp_ascii: "\<forall>x\<in>set l. \<forall>c\<in>set x. c < 128 \<Longrightarrow> \<forall>c\<in>set (join_amp l). c < (128::nat)"
  by (induction l rule: join_amp.induct) (auto simp: pys_simps)

lemma urlencode_ok:
  assumes "params_encodable params"
  shows "\<exists>q. urlencode params = Inr q \<and> utf8_encode q = Inr (map of_nat q)"
proof -
  from urlencode_items_ok [OF assms] obtain l where l: "urlencode_items params = Inr l"
    and la: "\<forall>x\<in>set l. \<forall>c\<in>set x. c < 128" by blast
  from join_amp_ascii [OF la] have "utf8_encode (join_amp l) = Inr (map of_nat (join_amp l))"
    by (rule utf8_encode_ascii)
  with l show ?thesis by (simp add: urlencode_def)
qed

text \<open>
  The model of SHA-256 on the test vector of FIPS 180-2 for the message \<open>abc\<close>.
\<close>

lemma sha256_abc:
  "hexdigest (sha256 (map of_nat (pys ''abc''))) =
     pys ''ba7816bf8f01cfea414140de5dae2223b00361a396177a9cb410ff61f20015ad''"
  by code_simp

lemma sign_request_error:
  "sign_request params secret_key = Inl e \<Longrightarrow> e = UnicodeEncodeError \<or> e = ValueError"
  by (auto simp: sign_request_def urlencode_def split: sum.splits
      dest: urlencode_items_error utf8_encode_error)

lemma sign_request_encodable:
  "sign_request params secret_key = Inr signature \<Longrightarrow>
   params_encodable params \<and> encodable secret_key"
  by (auto simp: sign_request_def urlencode_def split: sum.splits
      dest: urlencode_items_encodable utf8_encode_encodable)

lemma sign_request_int_limit:
  assumes "10 ^ int_max_str_digits \<le> \<bar>i\<bar>" and "encodable k"
  shows "sign_request [(k, PInt i)] secret_key = Inl ValueError"
proof -
  from quote_plus_ok [OF assms(2)] obtain q where "quote_plus k = Inr q" ..
  moreover from assms(1) have "str_of_int i = Inl ValueError"
    by (simp add: str_of_int_def)
  ultimately show ?thesis
    by (simp add: sign_request_def urlencode_def)
qed

text \<open>
  C1, amended. For parameters (string keys to string, int, float, bool or None values)
  and a secret key in which no string holds a surrogate code point and no int has more
  than 4300 digits, \<open>sign_request\<close> returns the lower-case hexadecimal digest of
  HMAC-SHA256, keyed by the UTF-8 bytes of the secret, over the bytes of the URL-encoded
  query string of the parameters in their order (the query string is ASCII, so its
  encoding cannot fail); the result has 64 characters, all among \<open>0123456789abcdef\<close>.
  Being a function of its two arguments, the result is the same for the same inputs. On
  every other input \<open>sign_request\<close> raises UnicodeEncodeError or ValueError.
\<close>

theorem sign_request_hex:
  "(params_encodable params \<and> encodable secret_key \<longrightarrow>
      (\<exists>query_string key signature.
         urlencode params = Inr query_string \<and>
         utf8_encode secret_key = Inr key \<and>
         utf8_encode query_string = Inr (map of_nat query_string) \<and>
         sign_request params secret_key = Inr signature \<and>
         signature = hexdigest (hmac_sha256 key (map of_nat query_string)) \<and>
         length signature = 64 \<and>
         set signature \<subseteq> set (pys ''0123456789abcdef''))) \<and>
   (\<not> (params_encodable params \<and> encodable secret_key) \<longrightarrow>
      sign_request params secret_key = Inl UnicodeEncodeError \<or>
      sign_request params secret_key = Inl ValueError)"
proof (intro conjI impI)
  assume ok: "params_encodable params \<and> encodable secret_key"
  from ok urlencode_ok obtain q where q: "urlencode params = Inr q"
    and m: "utf8_encode q = Inr (map of_nat q)" by blast
  from ok utf8_encode_ok obtain key where key: "utf8_encode secret_key = Inr key" by blast
  have "sign_request params secret_key = Inr (hexdigest (hmac_sha256 key (map of_nat q)))"
    by (simp add: sign_request_def q m key)
  moreover have "length (hexdigest (hmac_sha256 key (map of_nat q))) = 64"
    by (simp add: length_hexdigest length_hmac_sha256)
  ultimately show "\<exists>query_string key signature.
         urlencode params = Inr query_string \<and>
         utf8_encode secret_key = Inr key \<and>
         utf8_encode query_string = Inr (map of_nat query_string) \<and>
         sign_request params secret_key = Inr signature \<and>
         signature = hexdigest (hmac_sha256 key (map of_nat query_string)) \<and>
         length signature = 64 \<and>
         set signature \<subseteq> set (pys ''0123456789abcdef'')"
    using q m key set_hexdigest by blast
next
  assume bad: "\<not> (params_encodable params \<and> encodable secret_key)"
  show "sign_request params secret_key = Inl UnicodeEncodeError \<or>
        sign_request params secret_key = Inl ValueError"
  proof (cases "sign_request params secret_key")
    case (Inl e)
    with sign_request_error [OF Inl] show ?thesis by auto
  next
    case (Inr signature)
    with sign_request_encodable [OF Inr] bad show ?thesis by simp
  qed
qed

theorem sign_request_hex_witness:
  "(case sign_request demo_params (pys ''secret'') of
      Inl e \<Rightarrow> False
    | Inr signature \<Rightarrow> length signature = 64 \<and> set signature \<subseteq> set (pys ''0123456789abcdef'')) \<and>
   (sign_request [(pys ''price'', PFloat ''0.5''), (pys ''note'', PStr [0xDC00])] (pys ''secret'') =
      Inl UnicodeEncodeError \<or>
    sign_request [(pys ''price'', PFloat ''0.5''), (pys ''note'', PStr [0xDC00])] (pys ''secret'') =
      Inl ValueError)"
proof -
  have p: "params_encodable demo_params \<and> encodable (pys ''secret'')"
    by (simp add: params_encodable_def demo_params_def encodable_pys value_ok_small)
  have n: "\<not> (params_encodable [(pys ''price'', PFloat ''0.5''), (pys ''note'', PStr [0xDC00])] \<and>
               encodable (pys ''secret''))"
    by (simp add: params_encodable_def value_ok_simps encodable_def)
  from sign_request_hex [of demo_params "pys ''secret''"] p
  have a: "case sign_request demo_params (pys ''secret'') of
      Inl e \<Rightarrow> False
    | Inr signature \<Rightarrow> length signature = 64 \<and> set signature \<subseteq> set (pys ''0123456789abcdef'')"
    by auto
  from sign_request_hex
    [of "[(pys ''price'', PFloat ''0.5''), (pys ''note'', PStr [0xDC00])]" "pys ''secret''"] n
  have "sign_request [(pys ''price'', PFloat ''0.5''), (pys ''note'', PStr [0xDC00])] (pys ''secret'') =
      Inl UnicodeEncodeError \<or>
    sign_request [(pys ''price'', PFloat ''0.5''), (pys ''note'', PStr [0xDC00])] (pys ''secret'') =
      Inl ValueError"
    by blast
  with a show ?thesis by blast
qed

text \<open>
  C1 as stated fails on a secret key that holds a lone surrogate, which raises
  UnicodeEncodeError, and on an int parameter of 4301 digits, which raises ValueError:
  no signature is returned.
\<close>

theorem sign_request_surrogate:
  "sign_request [] [0xD800] = Inl UnicodeEncodeError \<and>
   sign_request [(pys ''n'', PInt (10 ^ 4300))] (pys ''k'') = Inl ValueError"
proof (rule conjI)
  show "sign_request [] [0xD800] = Inl UnicodeEncodeError"
    by (simp add: sign_request_def urlencode_def utf8_char_def)
  have "(10::int) ^ int_max_str_digits \<le> \<bar>10 ^ 4300\<bar>"
    unfolding int_max_str_digits_def by (rule abs_ge_self)
  then show "sign_request [(pys ''n'', PInt (10 ^ 4300))] (pys ''k'') = Inl ValueError"
    using encodable_pys by (rule sign_request_int_limit)
qed

section \<open>Properties of the API client\<close>

lemma dict_set_new: "k \<notin> fst ` set d \<Longrightarrow> dict_set d k v = d @ [(k, v)]"
  by (induction d) auto

lemma dict_set_map_fst:
  "map fst (dict_set d k v) = (if k \<in> set (map fst d) then map fst d else map fst d @ [k])"
  by (induction d) (force+)

lemma dict_set_keys: "fst ` set (dict_set d k v) = insert k (fst ` set d)"
proof -
  have "set (map fst (dict_set d k v)) = insert k (set (map fst d))"
    by (auto simp: dict_set_map_fst)
  then show ?thesis by simp
qed

lemma dict_update_keys: "fst ` set (dict_update d e) = fst ` set d \<union> fst ` set e"
  unfolding dict_update_def
  by (induction e arbitrary: d) (auto simp: dict_set_keys)

lemma build_params_eq:
  "build_params timestamp extra_params =
     dict_update [(pys ''timestamp'', PInt timestamp)] (extra_items extra_params)"
  by (auto simp: build_params_def extra_items_def dict_update_def Let_def split: option.splits)

lemma build_params_keys:
  "fst ` set (build_params timestamp extra_params) =
     insert (pys ''timestamp'') (fst ` set (extra_items extra_params))"
  by (simp add: build_params_eq dict_update_keys)

lemma timestamp_not_signature: "pys ''timestamp'' \<noteq> pys ''signature''"
  by (simp add: pys_simps)

lemma sign_request_ok:
  assumes "params_encodable params" and "encodable secret_key"
  shows "\<exists>signature. sign_request params secret_key = Inr signature"
proof -
  from urlencode_ok [OF assms(1)] obtain q where "urlencode params = Inr q"
    and "utf8_encode q = Inr (map of_nat q)" by blast
  moreover from utf8_encode_ok [OF assms(2)] obtain key where "utf8_encode secret_key = Inr key" ..
  ultimately show ?thesis by (simp add: sign_request_def)
qed

lemma urlencode_items_ascii:
  "urlencode_items params = Inr l \<Longrightarrow> \<forall>x\<in>set l. \<forall>c\<in>set x. c < 128"
proof (induction params arbitrary: l)
  case Nil
  then show ?case by simp
next
  case (Cons kv rest)
  obtain k v where kv: "kv = (k, v)" by (cases kv)
  from Cons.prems kv obtain qk s qv l' where qk: "quote_plus k = Inr qk"
    and s: "py_str v = Inr s" and qv: "quote_plus s = Inr qv"
    and l': "urlencode_items rest = Inr l'"
    and l: "l = (qk @ pys ''='' @ qv) # l'"
    by (auto split: sum.splits)
  from quote_plus_ascii [OF qk] quote_plus_ascii [OF qv]
  have "\<forall>c\<in>set (qk @ pys ''='' @ qv). c < 128" by (auto simp: pys_simps)
  with Cons.IH [OF l'] l show ?case by simp
qed

lemma urlencode_ascii: "urlencode params = Inr q \<Longrightarrow> \<forall>c\<in>set q. c < 128"
  using urlencode_items_ascii join_amp_ascii
  by (fastforce simp: urlencode_def split: sum.splits)

lemma urlencode_items_append:
  assumes "urlencode_items params = Inr l" and "quote_plus k = Inr qk"
    and "py_str v = Inr s" and "quote_plus s = Inr qv"
  shows "urlencode_items (params @ [(k, v)]) = Inr (l @ [qk @ pys ''='' @ qv])"
  using assms
proof (induction params arbitrary: l)
  case Nil
  then show ?case by simp
next
  case (Cons kv rest)
  obtain k' v' where kv: "kv = (k', v')" by (cases kv)
  from Cons.prems(1) kv obtain qk' s' qv' l' where "quote_plus k' = Inr qk'"
    and "py_str v' = Inr s'" and "quote_plus s' = Inr qv'"
    and l': "urlencode_items rest = Inr l'"
    and "l = (qk' @ pys ''='' @ qv') # l'"
    by (auto split: sum.splits)
  with Cons.IH [OF l' Cons.prems(2,3,4)] kv show ?case by simp
qed

lemma join_amp_append: "l \<noteq> [] \<Longrightarrow> join_amp (l @ [x]) = join_amp l @ pys ''&'' @ x"
  by (induction l rule: join_amp.induct) simp_all

lemma urlencode_items_length: "urlencode_items params = Inr l \<Longrightarrow> length l = length params"
proof (induction params arbitrary: l)
  case Nil
  then show ?case by simp
next
  case (Cons kv rest)
  obtain k v where "kv = (k, v)" by (cases kv)
  with Cons show ?case by (auto split: sum.splits)
qed

lemma quote_plus_safe:
  assumes "\<forall>c\<in>set s. always_safe c"
  shows "quote_plus s = Inr s"
proof -
  have small: "\<forall>c\<in>set s. c < 128"
    using assms by (auto simp: always_safe_def)
  then have enc: "utf8_encode s = Inr (map of_nat s)"
    by (rule utf8_encode_ascii)
  have "quote_byte (of_nat c) = [c]" if "c \<in> set s" for c
  proof -
    from that small have "c < 128" by blast
    then have "unat (of_nat c :: byte) = c"
      by (simp add: unat_of_nat)
    with that assms show ?thesis by (simp add: quote_byte_def)
  qed
  then have "concat (map quote_byte (map of_nat s)) = s"
    by (induction s) simp_all
  with enc show ?thesis by (simp add: quote_plus_def)
qed

lemma hex_lower_safe: "d < 16 \<Longrightarrow> always_safe (hex_lower d)"
  by (simp add: hex_lower_def always_safe_def)

lemma hexdigest_safe: "\<forall>c\<in>set (hexdigest bs). always_safe c"
proof -
  have "\<And>b :: byte. always_safe (hex_lower (unat b div 16))"
    by (rule hex_lower_safe) (rule unat_byte_div)
  moreover have "\<And>b :: byte. always_safe (hex_lower (unat b mod 16))"
    by (rule hex_lower_safe) simp
  ultimately show ?thesis by (auto simp: hexdigest_def)
qed

lemma signature_key_safe: "\<forall>c\<in>set (pys ''signature''). always_safe c"
  by (simp add: pys_simps always_safe_def)

lemma urlencode_with_signature:
  assumes "urlencode params = Inr q" and "params \<noteq> []"
  shows "urlencode (params @ [(pys ''signature'', PStr (hexdigest bs))]) =
           Inr (q @ pys ''&signature='' @ hexdigest bs)"
proof -
  from assms(1) obtain l where l: "urlencode_items params = Inr l" and q: "q = join_amp l"
    by (auto simp: urlencode_def split: sum.splits)
  from urlencode_items_length [OF l] assms(2) have ne: "l \<noteq> []" by auto
  have "urlencode_items (params @ [(pys ''signature'', PStr (hexdigest bs))]) =
          Inr (l @ [pys ''signature'' @ pys ''='' @ hexdigest bs])"
    using l
  proof (rule urlencode_items_append)
    show "quote_plus (pys ''signature'') = Inr (pys ''signature'')"
      by (simp add: quote_plus_safe signature_key_safe)
    show "py_str (PStr (hexdigest bs)) = Inr (hexdigest bs)"
      by simp
    show "quote_plus (hexdigest bs) = Inr (hexdigest bs)"
      by (simp add: quote_plus_safe hexdigest_safe)
  qed
  with ne q show ?thesis
    by (simp add: urlencode_def join_amp_append pys_simps)
qed

lemma dict_set_subset: "set (dict_set d k v) \<subseteq> insert (k, v) (set d)"
  by (induction d) (auto split: if_splits)

lemma dict_set_encodable:
  assumes "params_encodable d" and "encodable k" and "value_ok v"
  shows "params_encodable (dict_set d k v)"
  using assms dict_set_subset [of d k v]
  by (fastforce simp: params_encodable_def)

lemma build_params_encodable:
  assumes "params_encodable (extra_items extra_params)" and "value_ok (PInt timestamp)"
  shows "params_encodable (build_params timestamp extra_params)"
proof -
  have step: "params_encodable (foldl (\<lambda>acc kv. dict_set acc (fst kv) (snd kv)) d e)"
    if "params_encodable d" "params_encodable e" for d e :: "(pystr \<times> pval) list"
    using that
  proof (induction e arbitrary: d)
    case Nil
    then show ?case by simp
  next
    case (Cons kv e)
    from Cons.prems(2) have "encodable (fst kv)" "value_ok (snd kv)" "params_encodable e"
      by (auto simp: params_encodable_def)
    with Cons show ?case by (simp add: dict_set_encodable)
  qed
  have "params_encodable [(pys ''timestamp'', PInt timestamp)]"
    using assms(2) by (simp add: params_encodable_def encodable_pys)
  from step [OF this assms(1)] show ?thesis
    by (simp add: build_params_eq dict_update_def)
qed

text \<open>
  C8, amended. When \<open>extra_params\<close> has no key \<open>signature\<close>: the parameters are the
  timestamp followed by \<open>extra_params\<close> merged in; the signature is computed over exactly
  these, which hold no \<open>signature\<close>; it is appended as the last parameter; and the URL
  requested is the signed query string followed by \<open>&signature=\<close> and the signature.
  The trade-history call passes \<open>limit=50\<close>, the three other calls pass nothing.
\<close>

theorem signed_params_appends_signature:
  assumes "pys ''signature'' \<notin> fst ` set (extra_items extra_params)"
  shows
    "(let merged = dict_update [(pys ''timestamp'', PInt timestamp)] (extra_items extra_params)
      in build_params timestamp extra_params = merged \<and>
         pys ''signature'' \<notin> fst ` set merged \<and>
         signed_params timestamp extra_params secret_key =
           (case sign_request merged secret_key of
              Inl e \<Rightarrow> Inl e
            | Inr signature \<Rightarrow> Inr (merged @ [(pys ''signature'', PStr signature)])) \<and>
         request_url timestamp endpoint secret_key extra_params =
           (case sign_request merged secret_key of
              Inl e \<Rightarrow> Inl e
            | Inr signature \<Rightarrow>
                (case urlencode merged of
                   Inl e \<Rightarrow> Inl e
                 | Inr query_string \<Rightarrow>
                     Inr (BINANCE_FUTURES_API_URL @ endpoint @ pys ''?'' @ query_string @
                          pys ''&signature='' @ signature)))) \<and>
     get_account_info timestamp http_get api_key secret_key =
       signed_get timestamp http_get (pys ''/fapi/v2/account'') api_key secret_key None \<and>
     get_positions timestamp http_get api_key secret_key =
       signed_get timestamp http_get (pys ''/fapi/v2/positionRisk'') api_key secret_key None \<and>
     get_open_orders timestamp http_get api_key secret_key =
       signed_get timestamp http_get (pys ''/fapi/v1/openOrders'') api_key secret_key None \<and>
     get_position_history timestamp http_get api_key secret_key =
       signed_get timestamp http_get (pys ''/fapi/v1/userTrades'') api_key secret_key
         (Some [(pys ''limit'', PInt 50)])"
proof -
  define merged where "merged = build_params timestamp extra_params"
  have m: "dict_update [(pys ''timestamp'', PInt timestamp)] (extra_items extra_params) = merged"
    by (simp add: merged_def build_params_eq)
  have nosig: "pys ''signature'' \<notin> fst ` set merged"
    using assms timestamp_not_signature by (simp add: merged_def build_params_keys)
  then have app: "dict_set merged (pys ''signature'') v = merged @ [(pys ''signature'', v)]" for v
    by (rule dict_set_new)
  have ne: "merged \<noteq> []"
  proof -
    have "pys ''timestamp'' \<in> fst ` set merged"
      by (simp add: merged_def build_params_keys)
    then show ?thesis by auto
  qed
  have sp: "signed_params timestamp extra_params secret_key =
           (case sign_request merged secret_key of
              Inl e \<Rightarrow> Inl e
            | Inr signature \<Rightarrow> Inr (merged @ [(pys ''signature'', PStr signature)]))"
    by (simp add: signed_params_def merged_def [symmetric] app split: sum.splits)
  have url: "request_url timestamp endpoint secret_key extra_params =
           (case sign_request merged secret_key of
              Inl e \<Rightarrow> Inl e
            | Inr signature \<Rightarrow>
                (case urlencode merged of
                   Inl e \<Rightarrow> Inl e
                 | Inr query_string \<Rightarrow>
                     Inr (BINANCE_FUTURES_API_URL @ endpoint @ pys ''?'' @ query_string @
                          pys ''&signature='' @ signature)))"
  proof (cases "sign_request merged secret_key")
    case (Inl e)
    then show ?thesis by (simp add: request_url_def sp)
  next
    case (Inr signature)
    then obtain q key msg where q: "urlencode merged = Inr q"
      and sig: "signature = hexdigest (hmac_sha256 key msg)"
      by (auto simp: sign_request_def split: sum.splits)
    from urlencode_with_signature [OF q ne, of "hmac_sha256 key msg"] Inr q sig
    show ?thesis by (simp add: request_url_def sp)
  qed
  from nosig sp url show ?thesis
    by (simp add: Let_def m merged_def [symmetric]
        get_account_info_def get_positions_def get_open_orders_def get_position_history_def)
qed

theorem signed_params_appends_signature_witness:
  "case signed_params 1700000000000 (Some [(pys ''limit'', PInt 50)]) (pys ''secret'') of
     Inl e \<Rightarrow> False
   | Inr params \<Rightarrow>
       map fst params = [pys ''timestamp'', pys ''limit'', pys ''signature''] \<and>
       take 2 params = demo_params \<and>
       Inr (snd (last params)) = map_sum id PStr (sign_request demo_params (pys ''secret''))"
proof -
  have a: "pys ''signature'' \<notin> fst ` set (extra_items (Some [(pys ''limit'', PInt 50)]))"
    by (simp add: extra_items_def pys_simps)
  have m: "dict_update [(pys ''timestamp'', PInt 1700000000000)]
             (extra_items (Some [(pys ''limit'', PInt 50)])) = demo_params"
    by (simp add: dict_update_def extra_items_def demo_params_def pys_simps)
  have "params_encodable demo_params"
    by (simp add: params_encodable_def demo_params_def encodable_pys value_ok_small)
  from sign_request_ok [OF this encodable_pys]
  obtain sig where sig: "sign_request demo_params (pys ''secret'') = Inr sig" ..
  from signed_params_appends_signature
    [OF a, where timestamp = 1700000000000 and secret_key = "pys ''secret''"
       and endpoint = "[]" and api_key = "[]" and http_get = demo_http]
  have "signed_params 1700000000000 (Some [(pys ''limit'', PInt 50)]) (pys ''secret'') =
          Inr (demo_params @ [(pys ''signature'', PStr sig)])"
    by (simp add: Let_def m sig)
  then show ?thesis
    by (simp add: sig) (simp add: demo_params_def)
qed

text \<open>
  C8 as stated fails when \<open>extra_params\<close> already has a key \<open>signature\<close>: that
  parameter is part of what is signed, and the assignment of line 26 replaces its value
  in place, so the signature is not the last parameter.
\<close>

theorem signed_params_signature_not_last:
  "map_sum id (map fst)
     (signed_params 1 (Some [(pys ''signature'', PStr (pys ''x'')), (pys ''limit'', PInt 50)])
        (pys ''k'')) =
   Inr [pys ''timestamp'', pys ''signature'', pys ''limit'']"
proof -
  have b: "build_params 1 (Some [(pys ''signature'', PStr (pys ''x'')), (pys ''limit'', PInt 50)]) =
           [(pys ''timestamp'', PInt 1), (pys ''signature'', PStr (pys ''x'')), (pys ''limit'', PInt 50)]"
    by (simp add: build_params_def dict_update_def pys_simps)
  have "params_encodable
          [(pys ''timestamp'', PInt 1), (pys ''signature'', PStr (pys ''x'')), (pys ''limit'', PInt 50)]"
    by (simp add: params_encodable_def encodable_pys value_ok_small value_ok_simps)
  from sign_request_ok [OF this encodable_pys]
  obtain sig where "sign_request
          [(pys ''timestamp'', PInt 1), (pys ''signature'', PStr (pys ''x'')), (pys ''limit'', PInt 50)]
          (pys ''k'') = Inr sig" ..
  then show ?thesis
    by (simp add: signed_params_def b)
qed

text \<open>
  C4. Once the request has returned a response, a body on which \<open>json()\<close> raises makes
  \<open>signed_get\<close> return the dict with the message under \<open>msg\<close> and the response text
  under \<open>raw\<close>; nothing is raised.
\<close>

theorem signed_get_parse_failure:
  assumes "request_url timestamp endpoint secret_key extra_params = Inr url"
    and "http_get url (get_headers api_key) = Inr response"
    and "resp_json response = Inl e"
  shows "signed_get timestamp http_get endpoint api_key secret_key extra_params =
           Inr (JDict [(pys ''msg'', JStr parse_error_msg),
                       (pys ''raw'', JStr (resp_text response))])"
  using assms by (simp add: signed_get_def)

text \<open>What \<open>requests.get\<close> raises is not caught by \<open>signed_get\<close>.\<close>

lemma signed_get_transport_error:
  assumes "request_url timestamp endpoint secret_key extra_params = Inr url"
    and "http_get url (get_headers api_key) = Inl e"
  shows "signed_get timestamp http_get endpoint api_key secret_key extra_params = Inl e"
  using assms by (simp add: signed_get_def)

lemma request_url_ok:
  assumes "params_encodable (extra_items extra_params)" and "encodable secret_key"
    and "value_ok (PInt timestamp)"
  shows "\<exists>url. request_url timestamp endpoint secret_key extra_params = Inr url"
proof -
  let ?params = "build_params timestamp extra_params"
  have pe: "params_encodable ?params"
    using assms(1,3) by (rule build_params_encodable)
  from sign_request_ok [OF pe assms(2)]
  obtain sig where sig: "sign_request ?params secret_key = Inr sig" ..
  then obtain key msg where h: "sig = hexdigest (hmac_sha256 key msg)"
    by (auto simp: sign_request_def split: sum.splits)
  have "params_encodable (dict_set ?params (pys ''signature'') (PStr sig))"
  proof -
    have "encodable sig"
      unfolding h using hexdigest_safe [of "hmac_sha256 key msg"]
      by (auto simp: encodable_def always_safe_def)
    then show ?thesis using pe encodable_pys
      by (intro dict_set_encodable) (simp_all add: value_ok_simps)
  qed
  from urlencode_ok [OF this] sig show ?thesis
    by (auto simp: request_url_def signed_params_def)
qed

theorem signed_get_parse_failure_witness:
  "signed_get 1700000000000 demo_http (pys ''/fapi/v2/account'') (pys ''key'') (pys ''secret'') None =
     Inr (JDict [(pys ''msg'', JStr parse_error_msg),
                 (pys ''raw'', JStr (pys ''<html>Bad Gateway</html>''))])"
proof -
  have "params_encodable (extra_items (None :: (pystr \<times> pval) list option))"
    by (simp add: extra_items_def params_encodable_def)
  moreover have "value_ok (PInt 1700000000000)"
    by (rule value_ok_small) simp
  ultimately obtain url
    where u: "request_url 1700000000000 (pys ''/fapi/v2/account'') (pys ''secret'') None = Inr url"
    using request_url_ok [OF _ encodable_pys] by blast
  have h: "demo_http url (get_headers (pys ''key'')) =
             Inr \<lparr> resp_text = pys ''<html>Bad Gateway</html>'', resp_json = Inl ValueError \<rparr>"
    by (simp add: demo_http_def)
  from signed_get_parse_failure
    [where http_get = demo_http and api_key = "pys ''key''", OF u h]
  show ?thesis by simp
qed

section \<open>Properties of the refresh loop\<close>

text \<open>
  A request that raises ends the pass with the generic error; without a key or a
  secret the loop is never entered.
\<close>

lemma cycle_fetch_error:
  "fetch_all w api_key api_secret = Inl e \<Longrightarrow>
   cycle fl w api_key api_secret session_state = ([show_exception w e], Break)"
  by (simp add: cycle_def)

lemma dashboard_without_keys:
  "api_key = [] \<or> api_secret = [] \<Longrightarrow>
   dashboard fl ws api_key api_secret session_state = ([StWarning enter_keys], Stopped)"
  by (auto simp: dashboard_def)







end
